theory Spec2Isabelle
  imports Main "HOL-Library.Multiset"
begin

section \<open>Data model of \<open>packages/api/src/services/library_item.ts\<close>\<close>

text \<open>
  A \<open>Date\<close> is a number of milliseconds since the epoch, so \<open>new Date(0)\<close> is \<open>0\<close>.
  The current time (\<open>new Date()\<close> in the service, \<open>now()\<close> in the database) is one
  value \<open>now\<close> of the environment for the whole call.
\<close>

type_synonym Date = int

text \<open>
  Modelled from the spec: the enum \<open>LibraryItemState\<close> is declared in
  \<open>entity/library_item\<close>, which is not among the sources; the data model of the
  specification lists the states Processing, Succeeded, Archived and Deleted.
\<close>

datatype LibraryItemState = Processing | Succeeded | Archived | Deleted

record Label =
  label_id :: string
  label_name :: string

record EntityLabel =
  labelId :: string
  libraryItemId :: string

text \<open>
  A row of the table \<open>library_item\<close>, which is also the entity the service returns.
  The array columns are never NULL. \<open>labels\<close> is the entity's optional relation
  property (\<open>libraryItem.labels?\<close>).
\<close>

record LibraryItem =
  item_id :: string
  userId :: string
  state :: LibraryItemState
  title :: string
  siteName :: "string option"
  itemType :: string
  subscription :: "string option"
  author :: "string option"
  originalUrl :: string
  savedAt :: Date
  createdAt :: Date
  updatedAt :: Date
  publishedAt :: "Date option"
  archivedAt :: "Date option"
  deletedAt :: "Date option"
  readAt :: "Date option"
  readingProgressTopPercent :: int
  readingProgressBottomPercent :: int
  wordCount :: "int option"
  readableContent :: "string option"
  labelNames :: "string list"
  highlightLabels :: "string list"
  highlightAnnotations :: "string list"
  recommenderNames :: "string list"
  labels :: "Label list option"

subsection \<open>The filter specification (\<open>SearchArgs\<close> and the types of \<open>utils/search\<close>)\<close>

datatype InFilter = InFilter_ALL | INBOX | ARCHIVE | TRASH | SUBSCRIPTION | LIBRARY

datatype ReadFilter = ReadFilter_ALL | READ | UNREAD

datatype HasFilter = HIGHLIGHTS | LABELS

datatype LabelFilterType = INCLUDE | EXCLUDE

datatype SortOrder = ASCENDING | DESCENDING

text \<open>
  Modelled from the spec: the enum \<open>SortBy\<close> of \<open>utils/search\<close> is not among the
  sources. Its values are column names (the service interpolates them after
  \<open>library_item.\<close>); the default \<open>SortBy.SAVED\<close> is the save time.
\<close>

datatype SortBy = SAVED | UPDATED | PUBLISHED

fun sort_column :: "SortBy \<Rightarrow> string" where
  "sort_column SAVED = ''saved_at''"
| "sort_column UPDATED = ''updated_at''"
| "sort_column PUBLISHED = ''published_at''"

record Sort =
  sort_by :: SortBy
  sort_order :: "SortOrder option"

record LabelFilter =
  lf_type :: LabelFilterType
  lf_labels :: "string list"

record DateFilter =
  df_field :: string
  startDate :: "Date option"
  endDate :: "Date option"

record FieldFilter =
  ff_field :: string
  ff_value :: string

record NoFilter =
  nf_field :: string

text \<open>An absent (\<open>undefined\<close> or \<open>null\<close>) field of \<open>SearchArgs\<close> is \<open>None\<close>.\<close>

record SearchArgs =
  from_arg :: "nat option"
  size_arg :: "nat option"
  sort_arg :: "Sort option"
  query :: "string option"
  inFilter :: "InFilter option"
  readFilter :: "ReadFilter option"
  typeFilter :: "string option"
  labelFilters :: "LabelFilter list option"
  hasFilters :: "HasFilter list option"
  dateFilters :: "DateFilter list option"
  termFilters :: "FieldFilter list option"
  matchFilters :: "FieldFilter list option"
  includePending :: "bool option"
  includeDeleted :: "bool option"
  ids :: "string list option"
  recommendedBy :: "string option"
  includeContent :: "bool option"
  noFilters :: "NoFilter list option"

section \<open>The relational store and the query builder\<close>

subsection \<open>SQL values, columns and text functions\<close>

datatype sqlval =
    Null
  | Text string
  | Timestamp Date
  | Array "string list"
  | Number int
  | StateVal LibraryItemState

definition opt_text :: "string option \<Rightarrow> sqlval" where
  "opt_text x = (case x of None \<Rightarrow> Null | Some s \<Rightarrow> Text s)"

definition opt_time :: "Date option \<Rightarrow> sqlval" where
  "opt_time x = (case x of None \<Rightarrow> Null | Some t \<Rightarrow> Timestamp t)"

text \<open>
  The column \<open>library_item.<name>\<close> of a row. The service interpolates caller-chosen
  field names into its SQL; a name that is no column of the model reads as NULL.
\<close>

definition column :: "string \<Rightarrow> LibraryItem \<Rightarrow> sqlval" where
  "column c r =
    (if c = ''id'' then Text (item_id r)
     else if c = ''user_id'' then Text (userId r)
     else if c = ''state'' then StateVal (state r)
     else if c = ''title'' then Text (title r)
     else if c = ''site_name'' then opt_text (siteName r)
     else if c = ''item_type'' then Text (itemType r)
     else if c = ''subscription'' then opt_text (subscription r)
     else if c = ''author'' then opt_text (author r)
     else if c = ''original_url'' then Text (originalUrl r)
     else if c = ''saved_at'' then Timestamp (savedAt r)
     else if c = ''created_at'' then Timestamp (createdAt r)
     else if c = ''updated_at'' then Timestamp (updatedAt r)
     else if c = ''published_at'' then opt_time (publishedAt r)
     else if c = ''archived_at'' then opt_time (archivedAt r)
     else if c = ''deleted_at'' then opt_time (deletedAt r)
     else if c = ''read_at'' then opt_time (readAt r)
     else if c = ''reading_progress_top_percent'' then Number (readingProgressTopPercent r)
     else if c = ''reading_progress_bottom_percent'' then Number (readingProgressBottomPercent r)
     else if c = ''word_count'' then (case wordCount r of None \<Rightarrow> Null | Some n \<Rightarrow> Number n)
     else if c = ''label_names'' then Array (labelNames r)
     else if c = ''highlight_labels'' then Array (highlightLabels r)
     else if c = ''highlight_annotations'' then Array (highlightAnnotations r)
     else if c = ''recommender_names'' then Array (recommenderNames r)
     else Null)"

text \<open>
  \<open>toLowerCase()\<close> and SQL \<open>lower\<close>, on the ASCII letters (other characters are left
  as they are).
\<close>

definition lower_char :: "char \<Rightarrow> char" where
  "lower_char c =
    (let n = (of_char c :: nat) in if 65 \<le> n \<and> n \<le> 90 then char_of (n + 32) else c)"

definition toLowerCase :: "string \<Rightarrow> string" where
  "toLowerCase s = map lower_char s"

text \<open>
  \<open>text ILIKE pattern\<close>: \<open>%\<close> stands for any run of characters, \<open>_\<close> for one character,
  every other character for itself up to case.
\<close>

fun ilike :: "string \<Rightarrow> string \<Rightarrow> bool" where
  "ilike [] [] = True"
| "ilike (c # cs) [] = False"
| "ilike [] (p # ps) = (p = CHR ''%'' \<and> ilike [] ps)"
| "ilike (c # cs) (p # ps) =
    (if p = CHR ''%'' then ilike (c # cs) ps \<or> ilike cs (p # ps)
     else if p = CHR ''_'' then ilike cs ps
     else lower_char c = lower_char p \<and> ilike cs ps)"

text \<open>The array operator \<open>&&\<close> (the arrays have an element in common).\<close>

definition overlap :: "string list \<Rightarrow> string list \<Rightarrow> bool" where
  "overlap xs ys = (\<exists>x \<in> set xs. x \<in> set ys)"

text \<open>Fourteen days, the interval of the trash window, in milliseconds.\<close>

definition days14 :: int where
  "days14 = 14 * 24 * 60 * 60 * 1000"

subsection \<open>Where conditions\<close>

text \<open>
  One constructor for each SQL condition the service writes. A \<open>string\<close> argument
  named \<open>col\<close> is a column of \<open>library_item\<close>, one named \<open>p\<close> is the name of a bound
  parameter (\<open>:p\<close> in the SQL text, \<open>:...p\<close> for an array spread).
  \<^item> \<open>TsMatch col p\<close>: \<open>websearch_to_tsquery('english', :p) @@ library_item.col\<close>
  \<^item> \<open>LowerEq col p\<close>: \<open>lower(library_item.col) = :p\<close>
  \<^item> \<open>ColEq col p\<close>: \<open>library_item.col = :p\<close>
  \<^item> \<open>Ilike col p\<close>: \<open>library_item.col ILIKE :p\<close>
  \<^item> \<open>IsNull col\<close>, \<open>IsNotNull col\<close>: \<open>library_item.col IS [NOT] NULL\<close>
  \<^item> \<open>DeletedWithin14Days\<close>: \<open>library_item.deleted_at >= now() - interval '14 days'\<close>
  \<^item> \<open>LibraryLabelled\<close>: \<open>'library' ILIKE ANY (library_item.label_names)\<close>
  \<^item> \<open>NotC c\<close>: \<open>NOT c\<close>; \<open>OrC c d\<close>: \<open>(c OR d)\<close>
  \<^item> \<open>TopPercentGe n\<close>, \<open>TopPercentLt n\<close>:
    \<open>library_item.reading_progress_top_percent >= n\<close>, \<open>... < n\<close>
  \<^item> \<open>ArrayLengthPos col\<close>: \<open>array_length(library_item.col, 1) > 0\<close>
  \<^item> \<open>LabelsOverlap p\<close>:
    \<open>lower(array_cat(library_item.label_names, library_item.highlight_labels)::text)::text[]
      && ARRAY[:...p]::text[]\<close>
  \<^item> \<open>Between col p q\<close>: \<open>library_item.col between :p and :q\<close>
  \<^item> \<open>IdIn p\<close>: \<open>library_item.id IN (:...p)\<close>
  \<^item> \<open>StateNe p\<close>: \<open>library_item.state != :p\<close>
  \<^item> \<open>ArrayEmpty col\<close>: \<open>library_item.col = '{}'\<close>
  \<^item> \<open>RecommendersOverlap p\<close>:
    \<open>lower(library_item.recommender_names::text)::text[] && ARRAY[:p]::text[]\<close>
\<close>

datatype cond =
    TsMatch string string
  | LowerEq string string
  | ColEq string string
  | Ilike string string
  | IsNull string
  | IsNotNull string
  | DeletedWithin14Days
  | LibraryLabelled
  | NotC cond
  | OrC cond cond
  | TopPercentGe int
  | TopPercentLt int
  | ArrayLengthPos string
  | LabelsOverlap string
  | Between string string string
  | IdIn string
  | StateNe string
  | ArrayEmpty string
  | RecommendersOverlap string

text \<open>
  What the service does not own: the clock, the full-text search engine (the match
  operator \<open>@@\<close> on a search-vector column and \<open>ts_rank_cd\<close>), the rows a transaction of
  a given user context may see, and the word counter of \<open>utils/helpers\<close>.
\<close>

record env =
  now :: Date
  ts_match :: "string \<Rightarrow> string \<Rightarrow> LibraryItem \<Rightarrow> bool"
  ts_rank_cd :: "string \<Rightarrow> LibraryItem \<Rightarrow> int"
  scope :: "string option \<Rightarrow> LibraryItem \<Rightarrow> bool"
  wordsCount :: "string \<Rightarrow> int"

text \<open>The item's case-folded array of label names and highlight labels,
  \<open>lower(array_cat(library_item.label_names, library_item.highlight_labels)::text)::text[]\<close>.\<close>

definition folded_labels :: "LibraryItem \<Rightarrow> string list" where
  "folded_labels r = map toLowerCase (labelNames r @ highlightLabels r)"

text \<open>
  Whether a row satisfies a condition under the bound parameters \<open>ps\<close>. A condition
  whose parameter is unbound, or bound to a value of the wrong type, or whose column
  is NULL, does not hold.
\<close>

fun holds :: "env \<Rightarrow> (string \<rightharpoonup> sqlval) \<Rightarrow> LibraryItem \<Rightarrow> cond \<Rightarrow> bool" where
  "holds e ps r (TsMatch col p) =
    (case ps p of Some (Text q) \<Rightarrow> ts_match e col q r | _ \<Rightarrow> False)"
| "holds e ps r (LowerEq col p) =
    (case column col r of
       Text s \<Rightarrow> (case ps p of Some (Text v) \<Rightarrow> toLowerCase s = v | _ \<Rightarrow> False)
     | _ \<Rightarrow> False)"
| "holds e ps r (ColEq col p) =
    (case ps p of Some v \<Rightarrow> v \<noteq> Null \<and> column col r = v | None \<Rightarrow> False)"
| "holds e ps r (Ilike col p) =
    (case column col r of
       Text s \<Rightarrow> (case ps p of Some (Text v) \<Rightarrow> ilike s v | _ \<Rightarrow> False)
     | _ \<Rightarrow> False)"
| "holds e ps r (IsNull col) = (column col r = Null)"
| "holds e ps r (IsNotNull col) = (column col r \<noteq> Null)"
| "holds e ps r DeletedWithin14Days =
    (case deletedAt r of None \<Rightarrow> False | Some d \<Rightarrow> now e - days14 \<le> d)"
| "holds e ps r LibraryLabelled = (\<exists>l \<in> set (labelNames r). ilike ''library'' l)"
| "holds e ps r (NotC c) = (\<not> holds e ps r c)"
| "holds e ps r (OrC c d) = (holds e ps r c \<or> holds e ps r d)"
| "holds e ps r (TopPercentGe n) = (n \<le> readingProgressTopPercent r)"
| "holds e ps r (TopPercentLt n) = (readingProgressTopPercent r < n)"
| "holds e ps r (ArrayLengthPos col) =
    (case column col r of Array xs \<Rightarrow> xs \<noteq> [] | _ \<Rightarrow> False)"
| "holds e ps r (LabelsOverlap p) =
    (case ps p of
       Some (Array ls) \<Rightarrow> overlap (folded_labels r) ls
     | _ \<Rightarrow> False)"
| "holds e ps r (Between col p q) =
    (case column col r of
       Timestamp t \<Rightarrow>
         (case ps p of
            Some (Timestamp a) \<Rightarrow>
              (case ps q of Some (Timestamp b) \<Rightarrow> a \<le> t \<and> t \<le> b | _ \<Rightarrow> False)
          | _ \<Rightarrow> False)
     | _ \<Rightarrow> False)"
| "holds e ps r (IdIn p) =
    (case ps p of Some (Array xs) \<Rightarrow> item_id r \<in> set xs | _ \<Rightarrow> False)"
| "holds e ps r (StateNe p) =
    (case ps p of Some (StateVal s) \<Rightarrow> state r \<noteq> s | _ \<Rightarrow> False)"
| "holds e ps r (ArrayEmpty col) =
    (case column col r of Array xs \<Rightarrow> xs = [] | _ \<Rightarrow> False)"
| "holds e ps r (RecommendersOverlap p) =
    (case ps p of
       Some (Text v) \<Rightarrow> overlap (map toLowerCase (recommenderNames r)) [v]
     | _ \<Rightarrow> False)"

subsection \<open>The query builder\<close>

text \<open>
  The state of the ORM's query builder, as far as the service drives it. \<open>wheres\<close> are
  the where expressions in the order they were added, each with the connective it was
  added with. \<open>bindings\<close> is the log of the \<open>setParameter\<close> calls, in call order: the
  builder keeps one object of parameters for the whole query, so a later binding of a
  name replaces an earlier one (\<open>getParameters\<close>), and the parameters are put into the
  SQL text only when the query runs.
\<close>

datatype wtype = SimpleW | AndW | OrW

datatype order_key = ByAlias string | ByColumn string

datatype nulls = NullsDefault | NullsLast

record QueryBuilder =
  selects :: "(string \<times> string) list"
  wheres :: "(wtype \<times> cond) list"
  bindings :: "(string \<times> sqlval) list"
  orderBys :: "(order_key \<times> SortOrder \<times> nulls) list"
  skip_rows :: "nat option"
  take_rows :: "nat option"

definition createQueryBuilder :: QueryBuilder where
  "createQueryBuilder =
    \<lparr>selects = [], wheres = [], bindings = [], orderBys = [],
     skip_rows = None, take_rows = None\<rparr>"

definition setParameters :: "(string \<times> sqlval) list \<Rightarrow> QueryBuilder \<Rightarrow> QueryBuilder" where
  "setParameters ps qb = qb\<lparr>bindings := bindings qb @ ps\<rparr>"

definition getParameters :: "QueryBuilder \<Rightarrow> (string \<rightharpoonup> sqlval)" where
  "getParameters qb = map_of (rev (bindings qb))"

definition where_first :: "cond \<Rightarrow> (string \<times> sqlval) list \<Rightarrow> QueryBuilder \<Rightarrow> QueryBuilder" where
  "where_first c ps qb = setParameters ps (qb\<lparr>wheres := [(SimpleW, c)]\<rparr>)"

definition andWhere :: "cond \<Rightarrow> (string \<times> sqlval) list \<Rightarrow> QueryBuilder \<Rightarrow> QueryBuilder" where
  "andWhere c ps qb = setParameters ps (qb\<lparr>wheres := wheres qb @ [(AndW, c)]\<rparr>)"

definition orWhere :: "cond \<Rightarrow> (string \<times> sqlval) list \<Rightarrow> QueryBuilder \<Rightarrow> QueryBuilder" where
  "orWhere c ps qb = setParameters ps (qb\<lparr>wheres := wheres qb @ [(OrW, c)]\<rparr>)"

definition addSelect :: "string \<Rightarrow> string \<Rightarrow> QueryBuilder \<Rightarrow> QueryBuilder" where
  "addSelect sel alias qb = qb\<lparr>selects := selects qb @ [(sel, alias)]\<rparr>"

definition orderBy :: "order_key \<Rightarrow> SortOrder \<Rightarrow> QueryBuilder \<Rightarrow> QueryBuilder" where
  "orderBy k ord qb = qb\<lparr>orderBys := [(k, ord, NullsDefault)]\<rparr>"

definition addOrderBy ::
  "order_key \<Rightarrow> SortOrder \<Rightarrow> nulls \<Rightarrow> QueryBuilder \<Rightarrow> QueryBuilder" where
  "addOrderBy k ord n qb = qb\<lparr>orderBys := orderBys qb @ [(k, ord, n)]\<rparr>"

definition skip :: "nat \<Rightarrow> QueryBuilder \<Rightarrow> QueryBuilder" where
  "skip n qb = qb\<lparr>skip_rows := Some n\<rparr>"

definition take_n :: "nat \<Rightarrow> QueryBuilder \<Rightarrow> QueryBuilder" where
  "take_n n qb = qb\<lparr>take_rows := Some n\<rparr>"

text \<open>The decimal numeral of an index, as the template literal \<open>${i}\<close> writes it.\<close>

fun string_of_nat :: "nat \<Rightarrow> string" where
  "string_of_nat n =
    (if n < 10 then [char_of (48 + n)]
     else string_of_nat (n div 10) @ [char_of (48 + n mod 10)])"

declare string_of_nat.simps [simp del]

section \<open>\<open>buildWhereClause\<close>\<close>

text \<open>
  The function is one sequence of guarded blocks; each block is a definition here, in
  the order of the source, and \<open>buildWhereClause\<close> runs them in that order. An
  \<open>if (x)\<close> on an optional string is false for \<open>undefined\<close> and for the empty string; an
  \<open>if (xs && xs.length > 0)\<close> is false for \<open>undefined\<close> and for the empty list.
\<close>

definition where_query :: "SearchArgs \<Rightarrow> QueryBuilder \<Rightarrow> QueryBuilder" where
  "where_query args qb =
    (case query args of
       None \<Rightarrow> qb
     | Some q \<Rightarrow>
         if q = [] then qb
         else orderBy (ByAlias ''rank'') DESCENDING
                (setParameters [(''query'', Text q)]
                  (andWhere (TsMatch ''search_tsv'' ''query'') []
                    (addSelect
                      ''ts_rank_cd(library_item.search_tsv, websearch_to_tsquery('english', :query))''
                      ''rank'' qb))))"

definition where_typeFilter :: "SearchArgs \<Rightarrow> QueryBuilder \<Rightarrow> QueryBuilder" where
  "where_typeFilter args qb =
    (case typeFilter args of
       None \<Rightarrow> qb
     | Some t \<Rightarrow>
         if t = [] then qb
         else andWhere (LowerEq ''item_type'' ''typeFilter'')
                [(''typeFilter'', Text (toLowerCase t))] qb)"

definition where_inFilter :: "SearchArgs \<Rightarrow> QueryBuilder \<Rightarrow> QueryBuilder" where
  "where_inFilter args qb =
    (if inFilter args \<noteq> Some InFilter_ALL then
       (case inFilter args of
          Some INBOX \<Rightarrow> andWhere (IsNull ''archived_at'') [] qb
        | Some ARCHIVE \<Rightarrow> andWhere (IsNotNull ''archived_at'') [] qb
        | Some TRASH \<Rightarrow> andWhere DeletedWithin14Days [] qb
        | Some SUBSCRIPTION \<Rightarrow>
            andWhere (IsNull ''archived_at'') []
              (andWhere (NotC LibraryLabelled) []
                (andWhere (IsNotNull ''subscription'') [] qb))
        | Some LIBRARY \<Rightarrow>
            andWhere (IsNull ''archived_at'') []
              (andWhere (OrC (IsNull ''subscription'') LibraryLabelled) [] qb)
        | _ \<Rightarrow> qb)
     else qb)"

definition where_readFilter :: "SearchArgs \<Rightarrow> QueryBuilder \<Rightarrow> QueryBuilder" where
  "where_readFilter args qb =
    (if readFilter args \<noteq> Some ReadFilter_ALL then
       (case readFilter args of
          Some READ \<Rightarrow> andWhere (TopPercentGe 98) [] qb
        | Some UNREAD \<Rightarrow> andWhere (TopPercentLt 98) [] qb
        | _ \<Rightarrow> qb)
     else qb)"

fun has_step :: "QueryBuilder \<Rightarrow> HasFilter \<Rightarrow> QueryBuilder" where
  "has_step qb HIGHLIGHTS = andWhere (ArrayLengthPos ''highlight_annotations'') [] qb"
| "has_step qb LABELS = andWhere (ArrayLengthPos ''label_names'') [] qb"

definition where_hasFilters :: "SearchArgs \<Rightarrow> QueryBuilder \<Rightarrow> QueryBuilder" where
  "where_hasFilters args qb =
    (case hasFilters args of
       None \<Rightarrow> qb
     | Some fs \<Rightarrow> if length fs > 0 then foldl has_step qb fs else qb)"

text \<open>
  \<open>includeLabels.forEach((includeLabel, i) => ...)\<close>: the loop over the INCLUDE entries
  with their index, the parameter of entry \<open>i\<close> being \<open>includeLabels_i\<close>.
\<close>

definition include_param :: "nat \<Rightarrow> string" where
  "include_param i = ''includeLabels_'' @ string_of_nat i"

fun include_loop :: "nat \<Rightarrow> LabelFilter list \<Rightarrow> QueryBuilder \<Rightarrow> QueryBuilder" where
  "include_loop i [] qb = qb"
| "include_loop i (f # fs) qb =
    include_loop (Suc i) fs
      (andWhere (LabelsOverlap (include_param i))
         [(include_param i, Array (lf_labels f))] qb)"

definition where_labelFilters :: "SearchArgs \<Rightarrow> QueryBuilder \<Rightarrow> QueryBuilder" where
  "where_labelFilters args qb =
    (case labelFilters args of
       None \<Rightarrow> qb
     | Some lfs \<Rightarrow>
         if length lfs > 0 then
           (let includeLabels = filter (\<lambda>f. lf_type f = INCLUDE) lfs;
                excludeLabels = filter (\<lambda>f. lf_type f = EXCLUDE) lfs;
                qb1 = (if length includeLabels > 0 then include_loop 0 includeLabels qb
                       else qb)
            in if length excludeLabels > 0 then
                 andWhere (NotC (LabelsOverlap ''excludeLabels''))
                   [(''excludeLabels'', Array (concat (map lf_labels excludeLabels)))] qb1
               else qb1)
         else qb)"

definition date_step :: "Date \<Rightarrow> QueryBuilder \<Rightarrow> DateFilter \<Rightarrow> QueryBuilder" where
  "date_step now_ms qb f =
    (let startName = df_field f @ ''_start'';
         endName = df_field f @ ''_end''
     in andWhere (Between (df_field f) startName endName)
          [(startName, Timestamp (case startDate f of None \<Rightarrow> 0 | Some d \<Rightarrow> d)),
           (endName, Timestamp (case endDate f of None \<Rightarrow> now_ms | Some d \<Rightarrow> d))] qb)"

definition where_dateFilters :: "Date \<Rightarrow> SearchArgs \<Rightarrow> QueryBuilder \<Rightarrow> QueryBuilder" where
  "where_dateFilters now_ms args qb =
    (case dateFilters args of
       None \<Rightarrow> qb
     | Some fs \<Rightarrow> if length fs > 0 then foldl (date_step now_ms) qb fs else qb)"

definition term_step :: "QueryBuilder \<Rightarrow> FieldFilter \<Rightarrow> QueryBuilder" where
  "term_step qb f =
    (let param = ''term_'' @ ff_field f
     in andWhere (LowerEq (ff_field f) param) [(param, Text (toLowerCase (ff_value f)))] qb)"

definition where_termFilters :: "SearchArgs \<Rightarrow> QueryBuilder \<Rightarrow> QueryBuilder" where
  "where_termFilters args qb =
    (case termFilters args of
       None \<Rightarrow> qb
     | Some fs \<Rightarrow> if length fs > 0 then foldl term_step qb fs else qb)"

definition match_step :: "QueryBuilder \<Rightarrow> FieldFilter \<Rightarrow> QueryBuilder" where
  "match_step qb f =
    (let param = ''match_'' @ ff_field f
     in andWhere (TsMatch (ff_field f @ ''_tsv'') param) [(param, Text (ff_value f))] qb)"

definition where_matchFilters :: "SearchArgs \<Rightarrow> QueryBuilder \<Rightarrow> QueryBuilder" where
  "where_matchFilters args qb =
    (case matchFilters args of
       None \<Rightarrow> qb
     | Some fs \<Rightarrow> if length fs > 0 then foldl match_step qb fs else qb)"

definition where_ids :: "SearchArgs \<Rightarrow> QueryBuilder \<Rightarrow> QueryBuilder" where
  "where_ids args qb =
    (case ids args of
       None \<Rightarrow> qb
     | Some xs \<Rightarrow> if length xs > 0 then andWhere (IdIn ''ids'') [(''ids'', Array xs)] qb else qb)"

definition where_includePending :: "SearchArgs \<Rightarrow> QueryBuilder \<Rightarrow> QueryBuilder" where
  "where_includePending args qb =
    (if includePending args \<noteq> Some True then
       andWhere (StateNe ''state'') [(''state'', StateVal Processing)] qb
     else qb)"

definition where_includeDeleted :: "SearchArgs \<Rightarrow> QueryBuilder \<Rightarrow> QueryBuilder" where
  "where_includeDeleted args qb =
    (if includeDeleted args \<noteq> Some True \<and> inFilter args \<noteq> Some TRASH then
       andWhere (StateNe ''state'') [(''state'', StateVal Deleted)] qb
     else qb)"

definition no_step :: "QueryBuilder \<Rightarrow> NoFilter \<Rightarrow> QueryBuilder" where
  "no_step qb f = andWhere (ArrayEmpty (nf_field f)) [] qb"

definition where_noFilters :: "SearchArgs \<Rightarrow> QueryBuilder \<Rightarrow> QueryBuilder" where
  "where_noFilters args qb =
    (case noFilters args of None \<Rightarrow> qb | Some fs \<Rightarrow> foldl no_step qb fs)"

definition where_recommendedBy :: "SearchArgs \<Rightarrow> QueryBuilder \<Rightarrow> QueryBuilder" where
  "where_recommendedBy args qb =
    (case recommendedBy args of
       None \<Rightarrow> qb
     | Some u \<Rightarrow>
         if u = [] then qb
         else if u = ''*'' then andWhere (NotC (ArrayEmpty ''recommender_names'')) [] qb
         else andWhere (RecommendersOverlap ''recommendedBy'')
                [(''recommendedBy'', Text (toLowerCase u))] qb)"

definition buildWhereClause :: "Date \<Rightarrow> QueryBuilder \<Rightarrow> SearchArgs \<Rightarrow> QueryBuilder" where
  "buildWhereClause now_ms queryBuilder args =
    where_recommendedBy args
      (where_noFilters args
        (where_includeDeleted args
          (where_includePending args
            (where_ids args
              (where_matchFilters args
                (where_termFilters args
                  (where_dateFilters now_ms args
                    (where_labelFilters args
                      (where_hasFilters args
                        (where_readFilter args
                          (where_inFilter args
                            (where_typeFilter args
                              (where_query args queryBuilder)))))))))))))"

section \<open>Running a query\<close>

text \<open>
  The where expressions are joined in order, each with its connective (the first
  without one); in SQL, \<open>AND\<close> binds tighter than \<open>OR\<close>. A builder without a where
  expression selects every row.
\<close>

fun where_holds :: "(cond \<Rightarrow> bool) \<Rightarrow> bool \<Rightarrow> (wtype \<times> cond) list \<Rightarrow> bool" where
  "where_holds h acc [] = acc"
| "where_holds h acc ((OrW, c) # ws) = (acc \<or> where_holds h (h c) ws)"
| "where_holds h acc ((t, c) # ws) = where_holds h (acc \<and> h c) ws"

definition matches :: "env \<Rightarrow> QueryBuilder \<Rightarrow> LibraryItem \<Rightarrow> bool" where
  "matches e qb r =
    (case wheres qb of
       [] \<Rightarrow> True
     | (t, c) # ws \<Rightarrow>
         where_holds (holds e (getParameters qb) r) (holds e (getParameters qb) r c) ws)"

text \<open>
  The value a row is ordered by. The alias \<open>rank\<close> is the selected
  \<open>ts_rank_cd(..., websearch_to_tsquery('english', :query))\<close>; a column is ordered by
  when it holds a time or a number, and is NULL otherwise.
\<close>

definition order_value :: "env \<Rightarrow> QueryBuilder \<Rightarrow> order_key \<Rightarrow> LibraryItem \<Rightarrow> int option" where
  "order_value e qb k r =
    (case k of
       ByAlias a \<Rightarrow>
         (if a = ''rank'' then
            (case getParameters qb ''query'' of
               Some (Text q) \<Rightarrow> Some (ts_rank_cd e q r)
             | _ \<Rightarrow> None)
          else None)
     | ByColumn c \<Rightarrow>
         (case column c r of Timestamp t \<Rightarrow> Some t | Number n \<Rightarrow> Some n | _ \<Rightarrow> None))"

text \<open>
  \<open>key_before ord n a b\<close>: the key \<open>a\<close> sorts strictly before \<open>b\<close>. Without
  \<open>NULLS LAST\<close> the database puts NULL last when ascending and first when descending.
\<close>

fun key_before :: "SortOrder \<Rightarrow> nulls \<Rightarrow> int option \<Rightarrow> int option \<Rightarrow> bool" where
  "key_before ASCENDING n (Some x) (Some y) = (x < y)"
| "key_before DESCENDING n (Some x) (Some y) = (y < x)"
| "key_before ord n None None = False"
| "key_before ord NullsLast (Some x) None = True"
| "key_before ord NullsLast None (Some y) = False"
| "key_before ASCENDING NullsDefault (Some x) None = True"
| "key_before ASCENDING NullsDefault None (Some y) = False"
| "key_before DESCENDING NullsDefault (Some x) None = False"
| "key_before DESCENDING NullsDefault None (Some y) = True"

fun row_before ::
  "env \<Rightarrow> QueryBuilder \<Rightarrow> (order_key \<times> SortOrder \<times> nulls) list \<Rightarrow>
   LibraryItem \<Rightarrow> LibraryItem \<Rightarrow> bool" where
  "row_before e qb [] a b = False"
| "row_before e qb ((k, ord, n) # ks) a b =
    (key_before ord n (order_value e qb k a) (order_value e qb k b)
     \<or> (order_value e qb k a = order_value e qb k b \<and> row_before e qb ks a b))"

text \<open>Rows with equal keys keep the order of the table.\<close>

fun insert_row :: "('a \<Rightarrow> 'a \<Rightarrow> bool) \<Rightarrow> 'a \<Rightarrow> 'a list \<Rightarrow> 'a list" where
  "insert_row lt x [] = [x]"
| "insert_row lt x (y # ys) = (if lt y x then y # insert_row lt x ys else x # y # ys)"

definition order_rows :: "('a \<Rightarrow> 'a \<Rightarrow> bool) \<Rightarrow> 'a list \<Rightarrow> 'a list" where
  "order_rows lt xs = foldr (insert_row lt) xs []"

definition paginate :: "QueryBuilder \<Rightarrow> 'a list \<Rightarrow> 'a list" where
  "paginate qb xs =
    (let ys = (case skip_rows qb of None \<Rightarrow> xs | Some n \<Rightarrow> drop n xs)
     in case take_rows qb of None \<Rightarrow> ys | Some n \<Rightarrow> take n ys)"

record store =
  library_items :: "LibraryItem list"
  entity_labels :: "EntityLabel list"

text \<open>
  The transactional handle \<open>tx\<close> a unit of work receives: it sees, and writes, the rows
  the transaction's user context lets it.
\<close>

record tx =
  visible :: "LibraryItem \<Rightarrow> bool"

definition selected :: "env \<Rightarrow> tx \<Rightarrow> QueryBuilder \<Rightarrow> LibraryItem \<Rightarrow> bool" where
  "selected e t qb r = (visible t r \<and> matches e qb r)"

text \<open>\<open>getMany\<close> on a query without joins: the selected rows, ordered, from the offset
  \<open>skip\<close> and at most \<open>take\<close> of them.\<close>

definition getMany :: "env \<Rightarrow> tx \<Rightarrow> QueryBuilder \<Rightarrow> store \<Rightarrow> LibraryItem list" where
  "getMany e t qb s =
    paginate qb
      (order_rows (row_before e qb (orderBys qb)) (filter (selected e t qb) (library_items s)))"

text \<open>\<open>getCount\<close> counts the rows of the query without its ordering, offset and limit.\<close>

definition getCount :: "env \<Rightarrow> tx \<Rightarrow> QueryBuilder \<Rightarrow> store \<Rightarrow> nat" where
  "getCount e t qb s = length (filter (selected e t qb) (library_items s))"

subsection \<open>Partial entities and writes\<close>

text \<open>
  \<open>QueryDeepPartialEntity<LibraryItem>\<close>: every field may be absent (\<open>None\<close>); a nullable
  column may be set to \<open>null\<close> (\<open>Some None\<close>). The model carries the fields this
  service sets, and the title as one more field a caller may patch.
\<close>

record ItemPatch =
  p_state :: "LibraryItemState option"
  p_archivedAt :: "Date option option"
  p_deletedAt :: "Date option option"
  p_savedAt :: "Date option"
  p_readAt :: "Date option option"
  p_readingProgressTopPercent :: "int option"
  p_readingProgressBottomPercent :: "int option"
  p_title :: "string option"

definition empty_patch :: ItemPatch where
  "empty_patch =
    \<lparr>p_state = None, p_archivedAt = None, p_deletedAt = None, p_savedAt = None,
     p_readAt = None, p_readingProgressTopPercent = None,
     p_readingProgressBottomPercent = None, p_title = None\<rparr>"

definition apply_patch :: "ItemPatch \<Rightarrow> LibraryItem \<Rightarrow> LibraryItem" where
  "apply_patch p r =
    r\<lparr>state := (case p_state p of None \<Rightarrow> state r | Some v \<Rightarrow> v),
      archivedAt := (case p_archivedAt p of None \<Rightarrow> archivedAt r | Some v \<Rightarrow> v),
      deletedAt := (case p_deletedAt p of None \<Rightarrow> deletedAt r | Some v \<Rightarrow> v),
      savedAt := (case p_savedAt p of None \<Rightarrow> savedAt r | Some v \<Rightarrow> v),
      readAt := (case p_readAt p of None \<Rightarrow> readAt r | Some v \<Rightarrow> v),
      readingProgressTopPercent :=
        (case p_readingProgressTopPercent p of
           None \<Rightarrow> readingProgressTopPercent r | Some v \<Rightarrow> v),
      readingProgressBottomPercent :=
        (case p_readingProgressBottomPercent p of
           None \<Rightarrow> readingProgressBottomPercent r | Some v \<Rightarrow> v),
      title := (case p_title p of None \<Rightarrow> title r | Some v \<Rightarrow> v)\<rparr>"

text \<open>\<open>queryBuilder.update(LibraryItem).set(values).execute()\<close>: one UPDATE of every
  selected row.\<close>

definition execute_update ::
  "env \<Rightarrow> tx \<Rightarrow> QueryBuilder \<Rightarrow> ItemPatch \<Rightarrow> store \<Rightarrow> store" where
  "execute_update e t qb vals s =
    s\<lparr>library_items :=
        map (\<lambda>r. if selected e t qb r then apply_patch vals r else r) (library_items s)\<rparr>"

text \<open>The repository: \<open>update(id, patch)\<close>, \<open>findOneByOrFail({ id })\<close> and \<open>save\<close>.\<close>

datatype error =
    InvalidBulkAction
  | LabelsRequired
  | EntityNotFound
  | UniqueViolation
  | NotificationFailed string

definition repo_update :: "tx \<Rightarrow> string \<Rightarrow> ItemPatch \<Rightarrow> store \<Rightarrow> store" where
  "repo_update t i p s =
    s\<lparr>library_items :=
        map (\<lambda>r. if visible t r \<and> item_id r = i then apply_patch p r else r)
          (library_items s)\<rparr>"

definition findOneByOrFail :: "tx \<Rightarrow> string \<Rightarrow> store \<Rightarrow> error + LibraryItem" where
  "findOneByOrFail t i s =
    (case filter (\<lambda>r. visible t r \<and> item_id r = i) (library_items s) of
       [] \<Rightarrow> Inl EntityNotFound
     | r # _ \<Rightarrow> Inr r)"

definition repo_save :: "LibraryItem \<Rightarrow> store \<Rightarrow> store" where
  "repo_save x s =
    (if \<exists>r \<in> set (library_items s). item_id r = item_id x
     then s\<lparr>library_items :=
              map (\<lambda>r. if item_id r = item_id x then x else r) (library_items s)\<rparr>
     else s\<lparr>library_items := library_items s @ [x]\<rparr>)"

text \<open>
  Modelled from the spec: the transaction collaborator \<open>authTrx\<close> of \<open>repository\<close> is not
  among the sources. \<open>runInTransaction(work, userContext)\<close> runs \<open>work\<close> against a
  transactional handle scoped to the user context and returns its result; a failure
  of \<open>work\<close> aborts the transaction, which leaves the store as it was. Which rows a
  user context sees is the parameter \<open>scope\<close> of the environment; a call that passes
  no user has the context \<open>None\<close>.
\<close>

definition authTrx ::
  "env \<Rightarrow> (tx \<Rightarrow> store \<Rightarrow> (error + 'a) \<times> store) \<Rightarrow> string option \<Rightarrow> store \<Rightarrow>
   (error + 'a) \<times> store" where
  "authTrx e fn uid s =
    (case fn \<lparr>visible = scope e uid\<rparr> s of
       (Inl err, s') \<Rightarrow> (Inl err, s)
     | (Inr v, s') \<Rightarrow> (Inr v, s'))"

section \<open>The service\<close>

subsection \<open>\<open>searchLibraryItems\<close>\<close>

definition searchLibraryItems ::
  "env \<Rightarrow> SearchArgs \<Rightarrow> string \<Rightarrow> store \<Rightarrow> (error + LibraryItem list \<times> nat) \<times> store" where
  "searchLibraryItems e args uid s =
    (let from_n = (case from_arg args of None \<Rightarrow> 0 | Some n \<Rightarrow> n);
         size_n = (case size_arg args of None \<Rightarrow> 10 | Some n \<Rightarrow> n);
         sortOrder =
           (case sort_arg args of
              None \<Rightarrow> DESCENDING
            | Some so \<Rightarrow> (case sort_order so of None \<Rightarrow> DESCENDING | Some ord \<Rightarrow> ord));
         sortField = (case sort_arg args of None \<Rightarrow> SAVED | Some so \<Rightarrow> sort_by so)
     in authTrx e
          (\<lambda>t st.
             let queryBuilder =
                   buildWhereClause (now e)
                     (where_first (ColEq ''user_id'' ''userId'') [(''userId'', Text uid)]
                        createQueryBuilder)
                     args;
                 paged =
                   take_n size_n
                     (skip from_n
                        (addOrderBy (ByColumn (sort_column sortField)) sortOrder NullsLast
                           queryBuilder));
                 libraryItems = getMany e t paged st;
                 count = getCount e t paged st
             in (Inr (libraryItems, count), st))
          (Some uid) s)"

subsection \<open>\<open>findLibraryItemsByPrefix\<close>\<close>


subsection \<open>The change-notification collaborator\<close>

text \<open>
  \<open>EntityType.PAGE\<close> is the only entity type this service publishes. A notification
  call either resolves (\<open>None\<close>) or throws (\<open>Some err\<close>); the service awaits it.
  \<open>published\<close> is the log of the notifications that went out.
\<close>

datatype EntityType = PAGE

record UpdatePayload =
  payload_patch :: ItemPatch
  payload_id :: string

datatype notification =
    EntityCreated EntityType LibraryItem string
  | EntityUpdated EntityType UpdatePayload string

record PubSubClient =
  entityCreated :: "EntityType \<Rightarrow> LibraryItem \<Rightarrow> string \<Rightarrow> error option"
  entityUpdated :: "EntityType \<Rightarrow> UpdatePayload \<Rightarrow> string \<Rightarrow> error option"

record world =
  db :: store
  published :: "notification list"

subsection \<open>\<open>updateLibraryItem\<close> and \<open>restoreLibraryItem\<close>\<close>

text \<open>The \<open>switch (libraryItem.state)\<close>, which assigns to the fields of the patch.\<close>

definition reset_timestamps :: "Date \<Rightarrow> ItemPatch \<Rightarrow> ItemPatch" where
  "reset_timestamps now_ms libraryItem =
    (case p_state libraryItem of
       Some Archived \<Rightarrow> libraryItem\<lparr>p_archivedAt := Some (Some now_ms)\<rparr>
     | Some Deleted \<Rightarrow> libraryItem\<lparr>p_deletedAt := Some (Some now_ms)\<rparr>
     | Some Processing \<Rightarrow> libraryItem\<lparr>p_archivedAt := Some None, p_deletedAt := Some None\<rparr>
     | Some Succeeded \<Rightarrow> libraryItem\<lparr>p_archivedAt := Some None, p_deletedAt := Some None\<rparr>
     | None \<Rightarrow> libraryItem)"

text \<open>
  The unit of work of \<open>updateLibraryItem\<close>. The patch object it assigns to is the
  caller's, so the patch after the switch is what the rest of \<open>updateLibraryItem\<close>
  sees; the unit of work returns it beside the row it read back.
\<close>

definition update_work ::
  "env \<Rightarrow> string \<Rightarrow> ItemPatch \<Rightarrow> tx \<Rightarrow> store \<Rightarrow> (error + LibraryItem \<times> ItemPatch) \<times> store" where
  "update_work e i libraryItem t st =
    (let patched = reset_timestamps (now e) libraryItem;
         st1 = repo_update t i patched st
     in case findOneByOrFail t i st1 of
          Inl err \<Rightarrow> (Inl err, st1)
        | Inr item \<Rightarrow> (Inr (item, patched), st1))"

definition updateLibraryItem ::
  "env \<Rightarrow> string \<Rightarrow> ItemPatch \<Rightarrow> string \<Rightarrow> PubSubClient \<Rightarrow> world \<Rightarrow>
   (error + LibraryItem) \<times> world" where
  "updateLibraryItem e i libraryItem uid pubsub w =
    (case authTrx e (update_work e i libraryItem) (Some uid) (db w) of
       (Inl err, st) \<Rightarrow> (Inl err, w\<lparr>db := st\<rparr>)
     | (Inr (updatedLibraryItem, patched), st) \<Rightarrow>
         (let payload = \<lparr>payload_patch = patched, payload_id = i\<rparr>
          in case entityUpdated pubsub PAGE payload uid of
               Some err \<Rightarrow> (Inl err, w\<lparr>db := st\<rparr>)
             | None \<Rightarrow>
                 (Inr updatedLibraryItem,
                  w\<lparr>db := st, published := published w @ [EntityUpdated PAGE payload uid]\<rparr>)))"

definition restoreLibraryItem ::
  "env \<Rightarrow> string \<Rightarrow> string \<Rightarrow> PubSubClient \<Rightarrow> world \<Rightarrow> (error + LibraryItem) \<times> world" where
  "restoreLibraryItem e i uid pubsub w =
    updateLibraryItem e i
      (empty_patch\<lparr>p_state := Some Succeeded, p_savedAt := Some (now e),
         p_archivedAt := Some None, p_deletedAt := Some None\<rparr>)
      uid pubsub w"

subsection \<open>\<open>createLibraryItem\<close>\<close>

text \<open>
  The \<open>DeepPartial<LibraryItem>\<close> to create is given as the row to store, its word
  count and readable content optional as in the source.
\<close>

definition create_work ::
  "env \<Rightarrow> LibraryItem \<Rightarrow> tx \<Rightarrow> store \<Rightarrow> (error + LibraryItem) \<times> store" where
  "create_work e libraryItem t st =
    (let item =
           libraryItem\<lparr>wordCount :=
             (case wordCount libraryItem of
                Some n \<Rightarrow> Some n
              | None \<Rightarrow>
                  Some (wordsCount e
                          (case readableContent libraryItem of None \<Rightarrow> [] | Some c \<Rightarrow> c)))\<rparr>
     in (Inr item, repo_save item st))"

definition createLibraryItem ::
  "env \<Rightarrow> LibraryItem \<Rightarrow> string \<Rightarrow> PubSubClient \<Rightarrow> world \<Rightarrow> (error + LibraryItem) \<times> world" where
  "createLibraryItem e libraryItem uid pubsub w =
    (case authTrx e (create_work e libraryItem) (Some uid) (db w) of
       (Inl err, st) \<Rightarrow> (Inl err, w\<lparr>db := st\<rparr>)
     | (Inr newLibraryItem, st) \<Rightarrow>
         (case entityCreated pubsub PAGE newLibraryItem uid of
            Some err \<Rightarrow> (Inl err, w\<lparr>db := st\<rparr>)
          | None \<Rightarrow>
              (Inr newLibraryItem,
               w\<lparr>db := st,
                 published := published w @ [EntityCreated PAGE newLibraryItem uid]\<rparr>)))"

subsection \<open>\<open>updateLibraryItems\<close>, the bulk action\<close>

text \<open>
  \<open>OtherAction\<close> stands for any value outside the four kinds of \<open>BulkActionType\<close>, which
  is what reaches the \<open>default\<close> branch.
\<close>

datatype BulkActionType = Archive | Delete | AddLabels | MarkAsRead | OtherAction string

text \<open>The first \<open>switch\<close>: the values to set and the flag \<open>addLabels\<close>, or the throw.\<close>

definition bulk_script :: "Date \<Rightarrow> BulkActionType \<Rightarrow> error + ItemPatch \<times> bool" where
  "bulk_script now_ms action =
    (case action of
       Archive \<Rightarrow>
         Inr (empty_patch\<lparr>p_archivedAt := Some (Some now_ms), p_state := Some Archived\<rparr>, False)
     | Delete \<Rightarrow>
         Inr (empty_patch\<lparr>p_deletedAt := Some (Some now_ms), p_state := Some Deleted\<rparr>, False)
     | AddLabels \<Rightarrow> Inr (empty_patch, True)
     | MarkAsRead \<Rightarrow>
         Inr (empty_patch\<lparr>p_readAt := Some (Some now_ms),
                p_readingProgressTopPercent := Some 100,
                p_readingProgressBottomPercent := Some 100\<rparr>, False)
     | OtherAction x \<Rightarrow> Inl InvalidBulkAction)"

definition labelsToAdd :: "Label list \<Rightarrow> LibraryItem list \<Rightarrow> EntityLabel list" where
  "labelsToAdd ls libraryItems =
    concat
      (map (\<lambda>libraryItem.
              filter
                (\<lambda>entityLabel.
                   \<not> (case labels libraryItem of
                        None \<Rightarrow> False
                      | Some existing \<Rightarrow> \<exists>l \<in> set existing. label_id l = labelId entityLabel))
                (map (\<lambda>label. \<lparr>labelId = label_id label, libraryItemId = item_id libraryItem\<rparr>)
                   ls))
         libraryItems)"

text \<open>
  The bulk query joins no relation, so the entities \<open>getMany\<close> returns for it carry no
  \<open>labels\<close> property: \<open>libraryItem.labels\<close> is \<open>undefined\<close> for each of them.
\<close>

definition without_relations :: "LibraryItem \<Rightarrow> LibraryItem" where
  "without_relations r = r\<lparr>labels := None\<rparr>"

text \<open>
  Modelled from the spec: the entity \<open>EntityLabel\<close> is not among the sources; its join
  rows are unique on the pair (labelId, libraryItemId). \<open>save\<close> of new join rows
  inserts them all, and fails, inserting none, when a pair is given twice or is
  already stored.
\<close>

definition save_entity_labels :: "EntityLabel list \<Rightarrow> store \<Rightarrow> (error + unit) \<times> store" where
  "save_entity_labels xs st =
    (if distinct xs \<and> set xs \<inter> set (entity_labels st) = {}
     then (Inr (), st\<lparr>entity_labels := entity_labels st @ xs\<rparr>)
     else (Inl UniqueViolation, st))"

definition bulk_work ::
  "env \<Rightarrow> SearchArgs \<Rightarrow> Label list option \<Rightarrow> ItemPatch \<Rightarrow> bool \<Rightarrow> tx \<Rightarrow> store \<Rightarrow>
   (error + unit) \<times> store" where
  "bulk_work e args lbls vals addLabels t st =
    (let queryBuilder = buildWhereClause (now e) createQueryBuilder args
     in if addLabels then
          (case lbls of
             None \<Rightarrow> (Inl LabelsRequired, st)
           | Some ls \<Rightarrow>
               (let libraryItems = map without_relations (getMany e t queryBuilder st)
                in save_entity_labels (labelsToAdd ls libraryItems) st))
        else (Inr (), execute_update e t queryBuilder vals st))"

definition updateLibraryItems ::
  "env \<Rightarrow> BulkActionType \<Rightarrow> SearchArgs \<Rightarrow> Label list option \<Rightarrow> store \<Rightarrow>
   (error + unit) \<times> store" where
  "updateLibraryItems e action args lbls s =
    (case bulk_script (now e) action of
       Inl err \<Rightarrow> (Inl err, s)
     | Inr (vals, addLabels) \<Rightarrow> authTrx e (bulk_work e args lbls vals addLabels) None s)"

section \<open>Notions used in the proofs\<close>

text \<open>\<open>qb'\<close> has the where expressions of \<open>qb\<close> followed by expressions added with
  \<open>andWhere\<close>.\<close>

definition and_extension :: "QueryBuilder \<Rightarrow> QueryBuilder \<Rightarrow> bool" where
  "and_extension qb qb' = (\<exists>cs. wheres qb' = wheres qb @ map (Pair AndW) cs)"

text \<open>
  The label policy in the words of the specification: every INCLUDE entry's label set
  overlaps the item's case-folded label array (an AND of ORs), and the union of the
  labels of all EXCLUDE entries does not overlap it.
\<close>

definition spec_label_policy :: "LabelFilter list \<Rightarrow> LibraryItem \<Rightarrow> bool" where
  "spec_label_policy lfs r =
    ((\<forall>f \<in> set (filter (\<lambda>f. lf_type f = INCLUDE) lfs). overlap (folded_labels r) (lf_labels f)) \<and>
     \<not> overlap (folded_labels r)
         (concat (map lf_labels (filter (\<lambda>f. lf_type f = EXCLUDE) lfs))))"

section \<open>Sample data\<close>

definition no_args :: SearchArgs where
  "no_args =
    \<lparr>from_arg = None, size_arg = None, sort_arg = None, query = None, inFilter = None,
     readFilter = None, typeFilter = None, labelFilters = None, hasFilters = None,
     dateFilters = None, termFilters = None, matchFilters = None, includePending = None,
     includeDeleted = None, ids = None, recommendedBy = None, includeContent = None,
     noFilters = None\<rparr>"

definition sample_item :: "string \<Rightarrow> string \<Rightarrow> LibraryItem" where
  "sample_item i u =
    \<lparr>item_id = i, userId = u, state = Succeeded, title = ''World News'', siteName = None,
     itemType = ''ARTICLE'', subscription = None, author = None, originalUrl = ''https://example.com'',
     savedAt = 1000, createdAt = 1000, updatedAt = 1000, publishedAt = None,
     archivedAt = None, deletedAt = None, readAt = None,
     readingProgressTopPercent = 0, readingProgressBottomPercent = 0,
     wordCount = None, readableContent = None, labelNames = [], highlightLabels = [],
     highlightAnnotations = [], recommenderNames = [], labels = None\<rparr>"

definition trashed :: "string \<Rightarrow> string \<Rightarrow> Date \<Rightarrow> LibraryItem" where
  "trashed i u d = (sample_item i u)\<lparr>state := Deleted, deletedAt := Some d\<rparr>"

text \<open>Twelve rows of user \<open>u1\<close> that a default search matches, one deleted row of \<open>u1\<close> and
  one row of another user.\<close>

definition page_rows :: "LibraryItem list" where
  "page_rows =
    map (\<lambda>i. sample_item i ''u1'')
      [''i01'', ''i02'', ''i03'', ''i04'', ''i05'', ''i06'', ''i07'', ''i08'', ''i09'', ''i10'',
       ''i11'', ''i12'']
    @ [trashed ''i13'' ''u1'' 900, sample_item ''i14'' ''u2'']"

text \<open>Two INCLUDE and two EXCLUDE entries, and an item with given label names and
  highlight labels.\<close>

definition sample_label_filters :: "LabelFilter list" where
  "sample_label_filters =
    [\<lparr>lf_type = INCLUDE, lf_labels = [''news'', ''tech'']\<rparr>,
     \<lparr>lf_type = EXCLUDE, lf_labels = [''spam'']\<rparr>,
     \<lparr>lf_type = INCLUDE, lf_labels = [''daily'']\<rparr>,
     \<lparr>lf_type = EXCLUDE, lf_labels = [''ads'', ''promo'']\<rparr>]"

definition labelled :: "string \<Rightarrow> string \<Rightarrow> string list \<Rightarrow> string list \<Rightarrow> LibraryItem" where
  "labelled i u ls hs = (sample_item i u)\<lparr>labelNames := ls, highlightLabels := hs\<rparr>"

text \<open>An environment at time \<open>t\<close> whose transactions see every row.\<close>

definition sample_env :: "Date \<Rightarrow> env" where
  "sample_env t =
    \<lparr>now = t, ts_match = (\<lambda>col q r. False), ts_rank_cd = (\<lambda>q r. 0),
     scope = (\<lambda>uid r. True), wordsCount = (\<lambda>c. 0)\<rparr>"

text \<open>An environment at time \<open>t\<close> whose transactions see the rows of their own user.\<close>

definition owner_env :: "Date \<Rightarrow> env" where
  "owner_env t =
    \<lparr>now = t, ts_match = (\<lambda>col q r. False), ts_rank_cd = (\<lambda>q r. 0),
     scope = (\<lambda>uid r. uid = Some (userId r)), wordsCount = (\<lambda>c. 0)\<rparr>"

definition sample_world :: "LibraryItem list \<Rightarrow> world" where
  "sample_world rows = \<lparr>db = \<lparr>library_items = rows, entity_labels = []\<rparr>, published = []\<rparr>"


definition quiet_pubsub :: PubSubClient where
  "quiet_pubsub = \<lparr>entityCreated = (\<lambda>ty x u. None), entityUpdated = (\<lambda>ty x u. None)\<rparr>"

definition failing_pubsub :: PubSubClient where
  "failing_pubsub =
    \<lparr>entityCreated = (\<lambda>ty x u. Some (NotificationFailed ''publish'')),
     entityUpdated = (\<lambda>ty x u. Some (NotificationFailed ''publish''))\<rparr>"

section \<open>Properties\<close>

subsection \<open>Transactions and the single-item update\<close>

lemma findOneByOrFail_repo_update:
  assumes "findOneByOrFail t i (repo_update t i p st) = Inr item"
  shows "\<exists>r \<in> set (library_items st). visible t r \<and> item_id r = i \<and> item = apply_patch p r"
proof -
  let ?f = "\<lambda>r. if visible t r \<and> item_id r = i then apply_patch p r else r"
  let ?P = "\<lambda>r. visible t r \<and> item_id r = i"
  from assms obtain rest where "filter ?P (map ?f (library_items st)) = item # rest"
    by (auto simp: findOneByOrFail_def repo_update_def split: list.splits)
  then have "item \<in> set (filter ?P (map ?f (library_items st)))"
    by (metis list.set_intros(1))
  then obtain r where r: "r \<in> set (library_items st)" "item = ?f r" "visible t item" "item_id item = i"
    by auto
  then show ?thesis by (cases "visible t r \<and> item_id r = i") auto
qed

lemma update_work_Inr:
  assumes "update_work e i p t st = (Inr (item, q), st')"
  shows "q = reset_timestamps (now e) p \<and> st' = repo_update t i q st \<and>
         (\<exists>r \<in> set (library_items st). visible t r \<and> item_id r = i \<and> item = apply_patch q r)"
  using assms findOneByOrFail_repo_update[of t i "reset_timestamps (now e) p" st item]
  by (auto simp: update_work_def Let_def split: sum.splits)

lemma authTrx_Inr:
  "authTrx e fn uid s = (Inr v, s') \<longleftrightarrow> fn \<lparr>visible = scope e uid\<rparr> s = (Inr v, s')"
  by (auto simp: authTrx_def split: prod.splits sum.splits)

lemma updateLibraryItem_Inr:
  assumes "updateLibraryItem e i p uid pubsub w = (Inr item, w')"
  shows "\<exists>st. update_work e i p \<lparr>visible = scope e (Some uid)\<rparr> (db w) = (Inr (item, reset_timestamps (now e) p), st)
     \<and> entityUpdated pubsub PAGE \<lparr>payload_patch = reset_timestamps (now e) p, payload_id = i\<rparr> uid = None
     \<and> w' = w\<lparr>db := st, published := published w @ [EntityUpdated PAGE \<lparr>payload_patch = reset_timestamps (now e) p, payload_id = i\<rparr> uid]\<rparr>"
proof -
  obtain res st where a: "authTrx e (update_work e i p) (Some uid) (db w) = (res, st)" by force
  show ?thesis
  proof (cases res)
    case (Inl err)
    with a assms show ?thesis by (simp add: updateLibraryItem_def)
  next
    case (Inr pr)
    obtain it q where pr: "pr = (it, q)" by force
    from a Inr pr have u: "update_work e i p \<lparr>visible = scope e (Some uid)\<rparr> (db w) = (Inr (it, q), st)"
      by (simp add: authTrx_Inr)
    then have q: "q = reset_timestamps (now e) p" using update_work_Inr by blast
    from a Inr pr assms u q show ?thesis
      by (auto simp: updateLibraryItem_def Let_def split: option.splits)
  qed
qed

lemma apply_patch_archivedAt:
  "archivedAt (apply_patch p r) = (case p_archivedAt p of None \<Rightarrow> archivedAt r | Some v \<Rightarrow> v)"
  by (simp add: apply_patch_def)

lemma apply_patch_deletedAt:
  "deletedAt (apply_patch p r) = (case p_deletedAt p of None \<Rightarrow> deletedAt r | Some v \<Rightarrow> v)"
  by (simp add: apply_patch_def)

lemma reset_timestamps_Archived:
  "p_state p = Some Archived \<Longrightarrow> reset_timestamps t p = p\<lparr>p_archivedAt := Some (Some t)\<rparr>"
  by (simp add: reset_timestamps_def)

lemma reset_timestamps_Deleted:
  "p_state p = Some Deleted \<Longrightarrow> reset_timestamps t p = p\<lparr>p_deletedAt := Some (Some t)\<rparr>"
  by (simp add: reset_timestamps_def)

lemma reset_timestamps_active:
  "p_state p = Some Processing \<or> p_state p = Some Succeeded \<Longrightarrow>
   reset_timestamps t p = p\<lparr>p_archivedAt := Some None, p_deletedAt := Some None\<rparr>"
  by (auto simp: reset_timestamps_def)

lemma reset_timestamps_None:
  "p_state p = None \<Longrightarrow> reset_timestamps t p = p"
  by (simp add: reset_timestamps_def)

lemma sample_update_run:
  "updateLibraryItem (sample_env 5000) ''a'' (empty_patch\<lparr>p_state := Some Archived\<rparr>) ''u1''
     quiet_pubsub (sample_world [sample_item ''a'' ''u1'']) =
   (Inr (apply_patch (empty_patch\<lparr>p_state := Some Archived, p_archivedAt := Some (Some 5000)\<rparr>)
           (sample_item ''a'' ''u1'')),
    \<lparr>db = \<lparr>library_items =
            [apply_patch (empty_patch\<lparr>p_state := Some Archived, p_archivedAt := Some (Some 5000)\<rparr>)
               (sample_item ''a'' ''u1'')],
          entity_labels = []\<rparr>,
     published =
       [EntityUpdated PAGE
          \<lparr>payload_patch = empty_patch\<lparr>p_state := Some Archived, p_archivedAt := Some (Some 5000)\<rparr>,
           payload_id = ''a''\<rparr> ''u1'']\<rparr>)"
  by (simp add: updateLibraryItem_def authTrx_def update_work_def repo_update_def
      findOneByOrFail_def sample_env_def quiet_pubsub_def sample_world_def
      reset_timestamps_def empty_patch_def Let_def
      apply_patch_def sample_item_def)

text \<open>
  Claim C7. For every update patch: a patch that sets the state to Archived makes
  \<open>updateLibraryItem\<close> stamp \<open>archivedAt\<close> with the current time and leave \<open>deletedAt\<close>
  as the patch or the row had it; a patch that sets Deleted stamps \<open>deletedAt\<close> with
  the current time; a patch that sets Processing or Succeeded sets both to null,
  whatever they were; a patch without a state derives neither. The returned item is
  the stored row with the derived patch applied.
\<close>

theorem updateLibraryItem_derives_timestamps:
  assumes "updateLibraryItem e i p uid pubsub w = (Inr item, w')"
  shows "\<exists>r \<in> set (library_items (db w)). item_id r = i \<and>
     item = apply_patch (reset_timestamps (now e) p) r \<and>
     item \<in> set (library_items (db w')) \<and>
     (p_state p = Some Archived \<longrightarrow>
        archivedAt item = Some (now e) \<and>
        deletedAt item = (case p_deletedAt p of None \<Rightarrow> deletedAt r | Some v \<Rightarrow> v)) \<and>
     (p_state p = Some Deleted \<longrightarrow>
        deletedAt item = Some (now e) \<and>
        archivedAt item = (case p_archivedAt p of None \<Rightarrow> archivedAt r | Some v \<Rightarrow> v)) \<and>
     (p_state p = Some Processing \<or> p_state p = Some Succeeded \<longrightarrow>
        archivedAt item = None \<and> deletedAt item = None) \<and>
     (p_state p = None \<longrightarrow>
        reset_timestamps (now e) p = p \<and>
        archivedAt item = (case p_archivedAt p of None \<Rightarrow> archivedAt r | Some v \<Rightarrow> v) \<and>
        deletedAt item = (case p_deletedAt p of None \<Rightarrow> deletedAt r | Some v \<Rightarrow> v))"
proof -
  let ?q = "reset_timestamps (now e) p"
  let ?t = "\<lparr>visible = scope e (Some uid)\<rparr>"
  from updateLibraryItem_Inr[OF assms] obtain st where
    u: "update_work e i p ?t (db w) = (Inr (item, ?q), st)" and
    w': "w' = w\<lparr>db := st, published := published w @ [EntityUpdated PAGE \<lparr>payload_patch = ?q, payload_id = i\<rparr> uid]\<rparr>"
    by blast
  from update_work_Inr[OF u] obtain r where
    r: "r \<in> set (library_items (db w))" "visible ?t r" "item_id r = i" "item = apply_patch ?q r"
    and st: "st = repo_update ?t i ?q (db w)"
    by blast
  have "library_items (db w') =
      map (\<lambda>x. if visible ?t x \<and> item_id x = i then apply_patch ?q x else x) (library_items (db w))"
    by (simp add: w' st repo_update_def)
  then have mem: "item \<in> set (library_items (db w'))"
    using r by force
  have a: "p_state p = Some Archived \<longrightarrow>
        archivedAt item = Some (now e) \<and>
        deletedAt item = (case p_deletedAt p of None \<Rightarrow> deletedAt r | Some v \<Rightarrow> v)"
    by (simp add: r(4) apply_patch_archivedAt apply_patch_deletedAt reset_timestamps_Archived)
  have b: "p_state p = Some Deleted \<longrightarrow>
        deletedAt item = Some (now e) \<and>
        archivedAt item = (case p_archivedAt p of None \<Rightarrow> archivedAt r | Some v \<Rightarrow> v)"
    by (simp add: r(4) apply_patch_archivedAt apply_patch_deletedAt reset_timestamps_Deleted)
  have c: "p_state p = Some Processing \<or> p_state p = Some Succeeded \<longrightarrow>
        archivedAt item = None \<and> deletedAt item = None"
    by (auto simp: r(4) apply_patch_archivedAt apply_patch_deletedAt reset_timestamps_active)
  have d: "p_state p = None \<longrightarrow>
        reset_timestamps (now e) p = p \<and>
        archivedAt item = (case p_archivedAt p of None \<Rightarrow> archivedAt r | Some v \<Rightarrow> v) \<and>
        deletedAt item = (case p_deletedAt p of None \<Rightarrow> deletedAt r | Some v \<Rightarrow> v)"
    by (simp add: r(4) apply_patch_archivedAt apply_patch_deletedAt reset_timestamps_None)
  show ?thesis
    by (rule bexI [OF _ r(1)]) (intro conjI r(3) r(4) mem a b c d)
qed

theorem updateLibraryItem_derives_timestamps_witness:
  "updateLibraryItem (sample_env 5000) ''a'' (empty_patch\<lparr>p_state := Some Archived\<rparr>) ''u1''
     quiet_pubsub (sample_world [sample_item ''a'' ''u1'']) =
   (Inr (apply_patch (empty_patch\<lparr>p_state := Some Archived, p_archivedAt := Some (Some 5000)\<rparr>)
           (sample_item ''a'' ''u1'')),
    \<lparr>db = \<lparr>library_items =
            [apply_patch (empty_patch\<lparr>p_state := Some Archived, p_archivedAt := Some (Some 5000)\<rparr>)
               (sample_item ''a'' ''u1'')],
          entity_labels = []\<rparr>,
     published =
       [EntityUpdated PAGE
          \<lparr>payload_patch = empty_patch\<lparr>p_state := Some Archived, p_archivedAt := Some (Some 5000)\<rparr>,
           payload_id = ''a''\<rparr> ''u1'']\<rparr>) \<and>
   archivedAt (apply_patch (empty_patch\<lparr>p_state := Some Archived, p_archivedAt := Some (Some 5000)\<rparr>)
           (sample_item ''a'' ''u1'')) = Some 5000 \<and>
   deletedAt (apply_patch (empty_patch\<lparr>p_state := Some Archived, p_archivedAt := Some (Some 5000)\<rparr>)
           (sample_item ''a'' ''u1'')) = None"
  using updateLibraryItem_derives_timestamps [OF sample_update_run] sample_update_run
  by (simp add: sample_env_def sample_world_def empty_patch_def apply_patch_def sample_item_def
      reset_timestamps_def)

lemma reset_timestamps_fields:
  "reset_timestamps t p =
     p\<lparr>p_archivedAt :=
         (case p_state p of
            Some Archived \<Rightarrow> Some (Some t)
          | Some Processing \<Rightarrow> Some None
          | Some Succeeded \<Rightarrow> Some None
          | _ \<Rightarrow> p_archivedAt p),
       p_deletedAt :=
         (case p_state p of
            Some Deleted \<Rightarrow> Some (Some t)
          | Some Processing \<Rightarrow> Some None
          | Some Succeeded \<Rightarrow> Some None
          | _ \<Rightarrow> p_deletedAt p)\<rparr>"
  by (cases p) (simp add: reset_timestamps_def split: option.splits LibraryItemState.splits)

lemma reset_timestamps_fixed:
  "(reset_timestamps t p = p) =
     (p_state p = None \<or>
      (p_state p = Some Archived \<and> p_archivedAt p = Some (Some t)) \<or>
      (p_state p = Some Deleted \<and> p_deletedAt p = Some (Some t)) \<or>
      ((p_state p = Some Processing \<or> p_state p = Some Succeeded) \<and>
       p_archivedAt p = Some None \<and> p_deletedAt p = Some None))"
  by (cases p) (auto simp: reset_timestamps_def split: option.splits LibraryItemState.splits)

text \<open>
  Claim C8, as the code has it. The payload of the update notification is the
  caller's patch with \<open>archivedAt\<close> and \<open>deletedAt\<close> overwritten as the state switch
  derives them (Archived: \<open>archivedAt = now\<close>; Deleted: \<open>deletedAt = now\<close>; Processing or
  Succeeded: both null), plus the item id; every other field is the caller's. It is
  exactly the caller's patch plus the id if and only if the patch carries no state or
  already carries the derived values, as the patch of \<open>restoreLibraryItem\<close> does.
\<close>

theorem update_payload_is_written_patch:
  assumes "updateLibraryItem e i p uid pubsub w = (Inr item, w')"
  shows "published w' =
      published w @
        [EntityUpdated PAGE \<lparr>payload_patch = reset_timestamps (now e) p, payload_id = i\<rparr> uid] \<and>
     reset_timestamps (now e) p =
       p\<lparr>p_archivedAt :=
           (case p_state p of
              Some Archived \<Rightarrow> Some (Some (now e))
            | Some Processing \<Rightarrow> Some None
            | Some Succeeded \<Rightarrow> Some None
            | _ \<Rightarrow> p_archivedAt p),
         p_deletedAt :=
           (case p_state p of
              Some Deleted \<Rightarrow> Some (Some (now e))
            | Some Processing \<Rightarrow> Some None
            | Some Succeeded \<Rightarrow> Some None
            | _ \<Rightarrow> p_deletedAt p)\<rparr> \<and>
     ((reset_timestamps (now e) p = p) =
        (p_state p = None \<or>
         (p_state p = Some Archived \<and> p_archivedAt p = Some (Some (now e))) \<or>
         (p_state p = Some Deleted \<and> p_deletedAt p = Some (Some (now e))) \<or>
         ((p_state p = Some Processing \<or> p_state p = Some Succeeded) \<and>
          p_archivedAt p = Some None \<and> p_deletedAt p = Some None)))"
proof (intro conjI)
  from updateLibraryItem_Inr [OF assms]
  show "published w' =
      published w @
        [EntityUpdated PAGE \<lparr>payload_patch = reset_timestamps (now e) p, payload_id = i\<rparr> uid]"
    by auto
qed (rule reset_timestamps_fields, rule reset_timestamps_fixed)

text \<open>
  Claim C8 as stated fails: for the patch \<open>{ state: Archived }\<close> the payload also
  carries \<open>archivedAt\<close>, which the caller did not pass.
\<close>

theorem update_payload_has_derived_fields:
  "published (snd (updateLibraryItem (sample_env 5000) ''a''
       (empty_patch\<lparr>p_state := Some Archived\<rparr>) ''u1'' quiet_pubsub
       (sample_world [sample_item ''a'' ''u1'']))) =
     [EntityUpdated PAGE
        \<lparr>payload_patch = empty_patch\<lparr>p_state := Some Archived, p_archivedAt := Some (Some 5000)\<rparr>,
         payload_id = ''a''\<rparr> ''u1''] \<and>
   empty_patch\<lparr>p_state := Some Archived, p_archivedAt := Some (Some 5000)\<rparr> \<noteq>
     empty_patch\<lparr>p_state := Some Archived\<rparr>"
  by (simp add: sample_update_run) (simp add: empty_patch_def)

text \<open>
  Claim C2, as the code has it. The service awaits the notification without catching:
  when the transaction has committed and the notification throws, the mutation stays
  committed in the store and the operation fails with the notification's error, for
  \<open>updateLibraryItem\<close>, \<open>restoreLibraryItem\<close> and \<open>createLibraryItem\<close>.
\<close>

theorem notification_failure_after_commit:
  "(authTrx e (update_work e i p) (Some uid) (db w) = (Inr (item, q), st) \<and>
      entityUpdated pubsub PAGE \<lparr>payload_patch = q, payload_id = i\<rparr> uid = Some err \<longrightarrow>
      updateLibraryItem e i p uid pubsub w = (Inl err, w\<lparr>db := st\<rparr>)) \<and>
   (authTrx e (update_work e i
        (empty_patch\<lparr>p_state := Some Succeeded, p_savedAt := Some (now e),
           p_archivedAt := Some None, p_deletedAt := Some None\<rparr>)) (Some uid) (db w)
        = (Inr (item, q), st) \<and>
      entityUpdated pubsub PAGE \<lparr>payload_patch = q, payload_id = i\<rparr> uid = Some err \<longrightarrow>
      restoreLibraryItem e i uid pubsub w = (Inl err, w\<lparr>db := st\<rparr>)) \<and>
   (authTrx e (create_work e x) (Some uid) (db w) = (Inr item, st) \<and>
      entityCreated pubsub PAGE item uid = Some err \<longrightarrow>
      createLibraryItem e x uid pubsub w = (Inl err, w\<lparr>db := st\<rparr>))"
  by (simp add: updateLibraryItem_def restoreLibraryItem_def createLibraryItem_def)

text \<open>
  Claim C2 as stated fails: with a notification collaborator that throws,
  \<open>updateLibraryItem\<close> does not return the persisted entity.
\<close>

theorem notification_failure_reaches_caller:
  "fst (updateLibraryItem (sample_env 5000) ''a'' (empty_patch\<lparr>p_title := Some ''New''\<rparr>) ''u1''
     failing_pubsub (sample_world [sample_item ''a'' ''u1''])) = Inl (NotificationFailed ''publish'')"
  by (simp add: updateLibraryItem_def authTrx_def update_work_def repo_update_def
      findOneByOrFail_def sample_env_def failing_pubsub_def sample_world_def
      reset_timestamps_def empty_patch_def Let_def sample_item_def apply_patch_def)

subsection \<open>The bulk action\<close>

text \<open>
  Claim C10. An unknown action kind, or AddLabels without a label set, makes
  \<open>updateLibraryItems\<close> fail and leaves the store as it was: no row is updated and no
  join row is inserted.
\<close>

theorem updateLibraryItems_invalid_action_no_write:
  assumes "(\<exists>x. action = OtherAction x) \<or> (action = AddLabels \<and> lbls = None)"
  shows "updateLibraryItems e action args lbls s =
     (Inl (if action = AddLabels then LabelsRequired else InvalidBulkAction), s)"
  using assms
  by (auto simp: updateLibraryItems_def bulk_script_def authTrx_def bulk_work_def Let_def)

theorem updateLibraryItems_invalid_action_no_write_witness:
  "updateLibraryItems (sample_env 5000) AddLabels no_args None
     \<lparr>library_items = [sample_item ''a'' ''u1''], entity_labels = []\<rparr> =
     (Inl LabelsRequired, \<lparr>library_items = [sample_item ''a'' ''u1''], entity_labels = []\<rparr>) \<and>
   updateLibraryItems (sample_env 5000) (OtherAction ''Purge'') no_args None
     \<lparr>library_items = [sample_item ''a'' ''u1''], entity_labels = []\<rparr> =
     (Inl InvalidBulkAction, \<lparr>library_items = [sample_item ''a'' ''u1''], entity_labels = []\<rparr>)"
  using updateLibraryItems_invalid_action_no_write [of AddLabels None "sample_env 5000" no_args
               "\<lparr>library_items = [sample_item ''a'' ''u1''], entity_labels = []\<rparr>"]
        updateLibraryItems_invalid_action_no_write [of "OtherAction ''Purge''" None "sample_env 5000" no_args
               "\<lparr>library_items = [sample_item ''a'' ''u1''], entity_labels = []\<rparr>"]
  by simp

subsection \<open>The shape of the query \<open>buildWhereClause\<close> builds\<close>

lemma wheres_andWhere: "wheres (andWhere c ps qb) = wheres qb @ [(AndW, c)]"
  by (simp add: andWhere_def setParameters_def)

lemma and_extension_refl: "and_extension qb qb"
  by (simp add: and_extension_def)

lemma and_extension_trans:
  "and_extension a b \<Longrightarrow> and_extension b c \<Longrightarrow> and_extension a c"
  unfolding and_extension_def
proof -
  assume "\<exists>cs. wheres b = wheres a @ map (Pair AndW) cs" "\<exists>cs. wheres c = wheres b @ map (Pair AndW) cs"
  then obtain xs ys where "wheres b = wheres a @ map (Pair AndW) xs" "wheres c = wheres b @ map (Pair AndW) ys"
    by blast
  then have "wheres c = wheres a @ map (Pair AndW) (xs @ ys)" by simp
  then show "\<exists>cs. wheres c = wheres a @ map (Pair AndW) cs" ..
qed

lemma and_extension_andWhere:
  "and_extension a qb \<Longrightarrow> and_extension a (andWhere c ps qb)"
proof -
  assume "and_extension a qb"
  moreover have "and_extension qb (andWhere c ps qb)"
    unfolding and_extension_def wheres_andWhere by (rule exI [of _ "[c]"]) simp
  ultimately show ?thesis by (rule and_extension_trans)
qed

lemma and_extension_foldl:
  assumes step: "\<And>q f. and_extension a q \<Longrightarrow> and_extension a (stp q f)"
  shows "and_extension a qb \<Longrightarrow> and_extension a (foldl stp qb fs)"
  by (induction fs arbitrary: qb) (simp_all add: step)

lemma ext_query: "and_extension a qb \<Longrightarrow> and_extension a (where_query args qb)"
proof -
  assume a: "and_extension a qb"
  have "wheres (where_query args qb) = wheres qb @ map (Pair AndW) [] \<or>
        wheres (where_query args qb) = wheres qb @ map (Pair AndW) [TsMatch ''search_tsv'' ''query'']"
    by (simp add: where_query_def orderBy_def setParameters_def addSelect_def andWhere_def
        split: option.splits)
  then have "and_extension qb (where_query args qb)"
    unfolding and_extension_def by blast
  with a show ?thesis by (rule and_extension_trans)
qed

lemma ext_typeFilter: "and_extension a qb \<Longrightarrow> and_extension a (where_typeFilter args qb)"
  by (auto simp: where_typeFilter_def and_extension_andWhere split: option.splits)

lemma ext_inFilter: "and_extension a qb \<Longrightarrow> and_extension a (where_inFilter args qb)"
  by (auto simp: where_inFilter_def and_extension_andWhere split: option.splits InFilter.splits)

lemma ext_readFilter: "and_extension a qb \<Longrightarrow> and_extension a (where_readFilter args qb)"
  by (auto simp: where_readFilter_def and_extension_andWhere split: option.splits ReadFilter.splits)

lemma ext_has_step: "and_extension a qb \<Longrightarrow> and_extension a (has_step qb f)"
  by (cases f) (simp_all add: and_extension_andWhere)

lemma ext_hasFilters: "and_extension a qb \<Longrightarrow> and_extension a (where_hasFilters args qb)"
  by (auto simp: where_hasFilters_def and_extension_foldl ext_has_step split: option.splits)

lemma ext_include_loop: "and_extension a qb \<Longrightarrow> and_extension a (include_loop i fs qb)"
  by (induction fs arbitrary: i qb) (simp_all add: and_extension_andWhere)

lemma ext_labelFilters: "and_extension a qb \<Longrightarrow> and_extension a (where_labelFilters args qb)"
  by (auto simp: where_labelFilters_def Let_def and_extension_andWhere ext_include_loop
      split: option.splits)

lemma ext_dateFilters: "and_extension a qb \<Longrightarrow> and_extension a (where_dateFilters n args qb)"
  by (auto simp: where_dateFilters_def date_step_def Let_def and_extension_andWhere
      intro!: and_extension_foldl split: option.splits)

lemma ext_termFilters: "and_extension a qb \<Longrightarrow> and_extension a (where_termFilters args qb)"
  by (auto simp: where_termFilters_def term_step_def Let_def and_extension_andWhere
      intro!: and_extension_foldl split: option.splits)

lemma ext_matchFilters: "and_extension a qb \<Longrightarrow> and_extension a (where_matchFilters args qb)"
  by (auto simp: where_matchFilters_def match_step_def Let_def and_extension_andWhere
      intro!: and_extension_foldl split: option.splits)

lemma ext_ids: "and_extension a qb \<Longrightarrow> and_extension a (where_ids args qb)"
  by (auto simp: where_ids_def and_extension_andWhere split: option.splits)

lemma ext_includePending: "and_extension a qb \<Longrightarrow> and_extension a (where_includePending args qb)"
  by (auto simp: where_includePending_def and_extension_andWhere)

lemma ext_includeDeleted: "and_extension a qb \<Longrightarrow> and_extension a (where_includeDeleted args qb)"
  by (auto simp: where_includeDeleted_def and_extension_andWhere)

lemma ext_noFilters: "and_extension a qb \<Longrightarrow> and_extension a (where_noFilters args qb)"
  by (auto simp: where_noFilters_def no_step_def and_extension_andWhere
      intro!: and_extension_foldl split: option.splits)

lemma ext_recommendedBy: "and_extension a qb \<Longrightarrow> and_extension a (where_recommendedBy args qb)"
  by (auto simp: where_recommendedBy_def and_extension_andWhere split: option.splits)

lemma ext_after_inFilter:
  "and_extension (where_inFilter args (where_typeFilter args (where_query args qb)))
     (buildWhereClause n qb args)"
  unfolding buildWhereClause_def
  by (rule ext_recommendedBy, rule ext_noFilters, rule ext_includeDeleted,
      rule ext_includePending, rule ext_ids, rule ext_matchFilters, rule ext_termFilters,
      rule ext_dateFilters, rule ext_labelFilters, rule ext_hasFilters, rule ext_readFilter,
      rule and_extension_refl)

lemma ext_buildWhereClause: "and_extension qb (buildWhereClause n qb args)"
  by (rule and_extension_trans [OF _ ext_after_inFilter])
     (rule ext_inFilter, rule ext_typeFilter, rule ext_query, rule and_extension_refl)

lemma where_holds_and:
  "\<forall>(t, c) \<in> set ws. t \<noteq> OrW \<Longrightarrow>
   where_holds h acc ws = (acc \<and> (\<forall>(t, c) \<in> set ws. h c))"
proof (induction ws arbitrary: acc)
  case Nil
  then show ?case by simp
next
  case (Cons w ws)
  obtain t c where w: "w = (t, c)" by force
  with Cons.prems have "t \<noteq> OrW" by simp
  then have "where_holds h acc ((t, c) # ws) = where_holds h (acc \<and> h c) ws"
    by (cases t) simp_all
  with Cons w show ?case by auto
qed

lemma matches_all:
  assumes "\<forall>(t, c) \<in> set (tl (wheres qb)). t \<noteq> OrW"
  shows "matches e qb r = (\<forall>(t, c) \<in> set (wheres qb). holds e (getParameters qb) r c)"
proof (cases "wheres qb")
  case Nil
  then show ?thesis by (simp add: matches_def)
next
  case (Cons w ws)
  obtain t c where w: "w = (t, c)" by force
  from assms Cons have "\<forall>(t, c) \<in> set ws. t \<noteq> OrW" by simp
  from where_holds_and [OF this] Cons w show ?thesis
    by (simp add: matches_def)
qed

lemma and_extension_tl:
  assumes "and_extension qb qb'" "\<forall>(t, c) \<in> set (tl (wheres qb)). t \<noteq> OrW"
  shows "\<forall>(t, c) \<in> set (tl (wheres qb')). t \<noteq> OrW"
proof -
  from assms(1) obtain cs where cs: "wheres qb' = wheres qb @ map (Pair AndW) cs"
    by (auto simp: and_extension_def)
  show ?thesis
  proof (cases "wheres qb")
    case Nil
    with cs have "wheres qb' = map (Pair AndW) cs" by simp
    then have "set (tl (wheres qb')) \<subseteq> Pair AndW ` set cs"
      by (cases cs) auto
    then show ?thesis by auto
  next
    case (Cons w ws)
    with cs have "tl (wheres qb') = ws @ map (Pair AndW) cs" by simp
    with assms(2) Cons show ?thesis by auto
  qed
qed

lemma and_extension_subset:
  "and_extension qb qb' \<Longrightarrow> set (wheres qb) \<subseteq> set (wheres qb')"
  by (auto simp: and_extension_def)

lemma insert_row_set: "set (insert_row lt x xs) = insert x (set xs)"
  by (induction xs) auto

lemma insert_row_length: "length (insert_row lt x xs) = Suc (length xs)"
  by (induction xs) auto

lemma order_rows_set: "set (order_rows lt xs) = set xs"
  by (induction xs) (simp_all add: order_rows_def insert_row_set)

lemma order_rows_length: "length (order_rows lt xs) = length xs"
  by (induction xs) (simp_all add: order_rows_def insert_row_length)

lemma paginate_subset: "set (paginate qb xs) \<subseteq> set xs"
  by (auto simp: paginate_def Let_def split: option.splits dest: in_set_takeD in_set_dropD)

lemma getMany_selected: "r \<in> set (getMany e t qb s) \<Longrightarrow> r \<in> set (library_items s) \<and> selected e t qb r"
  using paginate_subset [of qb "order_rows (row_before e qb (orderBys qb)) (filter (selected e t qb) (library_items s))"]
  by (auto simp: getMany_def order_rows_set)


lemma matches_cong:
  assumes w: "wheres qb' = wheres qb" and b: "bindings qb' = bindings qb"
  shows "matches e qb' r = matches e qb r"
proof -
  have g: "getParameters qb' = getParameters qb"
    by (simp add: getParameters_def b)
  show ?thesis unfolding matches_def g w ..
qed

lemma selected_paged:
  "selected e t (take_n n (skip m (addOrderBy k ord nl qb))) = selected e t qb"
  by (rule ext) (simp add: selected_def take_n_def skip_def addOrderBy_def
      matches_cong [of "take_n n (skip m (addOrderBy k ord nl qb))" qb, unfolded take_n_def skip_def addOrderBy_def])

lemma searchLibraryItems_eq:
  "searchLibraryItems e args uid s =
    (Inr (getMany e \<lparr>visible = scope e (Some uid)\<rparr>
            (take_n (case size_arg args of None \<Rightarrow> 10 | Some n \<Rightarrow> n)
               (skip (case from_arg args of None \<Rightarrow> 0 | Some n \<Rightarrow> n)
                  (addOrderBy
                     (ByColumn (sort_column (case sort_arg args of None \<Rightarrow> SAVED | Some so \<Rightarrow> sort_by so)))
                     (case sort_arg args of
                        None \<Rightarrow> DESCENDING
                      | Some so \<Rightarrow> (case sort_order so of None \<Rightarrow> DESCENDING | Some ord \<Rightarrow> ord))
                     NullsLast
                     (buildWhereClause (now e)
                        (where_first (ColEq ''user_id'' ''userId'') [(''userId'', Text uid)]
                           createQueryBuilder)
                        args)))) s,
          length (filter
             (selected e \<lparr>visible = scope e (Some uid)\<rparr>
                (buildWhereClause (now e)
                   (where_first (ColEq ''user_id'' ''userId'') [(''userId'', Text uid)]
                      createQueryBuilder)
                   args))
             (library_items s))),
     s)"
  by (simp add: searchLibraryItems_def authTrx_def Let_def getCount_def selected_paged)

lemma search_items_selected:
  assumes "searchLibraryItems e args uid s = (Inr (items, cnt), s')" "r \<in> set items"
  shows "r \<in> set (library_items s) \<and>
     selected e \<lparr>visible = scope e (Some uid)\<rparr>
       (buildWhereClause (now e)
          (where_first (ColEq ''user_id'' ''userId'') [(''userId'', Text uid)] createQueryBuilder)
          args) r"
proof -
  from assms have "r \<in> set (getMany e \<lparr>visible = scope e (Some uid)\<rparr>
            (take_n (case size_arg args of None \<Rightarrow> 10 | Some n \<Rightarrow> n)
               (skip (case from_arg args of None \<Rightarrow> 0 | Some n \<Rightarrow> n)
                  (addOrderBy
                     (ByColumn (sort_column (case sort_arg args of None \<Rightarrow> SAVED | Some so \<Rightarrow> sort_by so)))
                     (case sort_arg args of
                        None \<Rightarrow> DESCENDING
                      | Some so \<Rightarrow> (case sort_order so of None \<Rightarrow> DESCENDING | Some ord \<Rightarrow> ord))
                     NullsLast
                     (buildWhereClause (now e)
                        (where_first (ColEq ''user_id'' ''userId'') [(''userId'', Text uid)]
                           createQueryBuilder)
                        args)))) s)"
    by (auto simp: searchLibraryItems_eq)
  from getMany_selected [OF this] show ?thesis by (simp add: selected_paged)
qed

lemma wheres_where_first: "wheres (where_first c ps qb) = [(SimpleW, c)]"
  by (simp add: where_first_def setParameters_def)

lemma search_no_or:
  "\<forall>(t, c) \<in> set (tl (wheres (buildWhereClause n (where_first c0 ps qb) args))). t \<noteq> OrW"
  by (rule and_extension_tl [OF ext_buildWhereClause]) (simp add: wheres_where_first)

lemma wheres_inFilter_TRASH:
  "inFilter args = Some TRASH \<Longrightarrow>
   wheres (where_inFilter args qb) = wheres qb @ [(AndW, DeletedWithin14Days)]"
  by (simp add: where_inFilter_def wheres_andWhere)

lemma TRASH_clause_present:
  assumes "inFilter args = Some TRASH"
  shows "(AndW, DeletedWithin14Days) \<in> set (wheres (buildWhereClause n qb args))"
proof -
  have "(AndW, DeletedWithin14Days) \<in>
      set (wheres (where_inFilter args (where_typeFilter args (where_query args qb))))"
    by (simp add: wheres_inFilter_TRASH [OF assms])
  with and_extension_subset [OF ext_after_inFilter] show ?thesis by blast
qed

lemma trash_only_builder:
  "buildWhereClause n
     (where_first (ColEq ''user_id'' ''userId'') [(''userId'', Text uid)] createQueryBuilder)
     (no_args\<lparr>inFilter := Some TRASH, from_arg := f, size_arg := z, sort_arg := so\<rparr>) =
   createQueryBuilder
     \<lparr>wheres := [(SimpleW, ColEq ''user_id'' ''userId''), (AndW, DeletedWithin14Days),
                 (AndW, StateNe ''state'')],
      bindings := [(''userId'', Text uid), (''state'', StateVal Processing)]\<rparr>"
  by (simp add: buildWhereClause_def no_args_def where_query_def where_typeFilter_def
      where_inFilter_def where_readFilter_def where_hasFilters_def where_labelFilters_def
      where_dateFilters_def where_termFilters_def where_matchFilters_def where_ids_def
      where_includePending_def where_includeDeleted_def where_noFilters_def
      where_recommendedBy_def where_first_def andWhere_def setParameters_def
      createQueryBuilder_def)

lemma trash_only_selected:
  "selected e t
     (createQueryBuilder
       \<lparr>wheres := [(SimpleW, ColEq ''user_id'' ''userId''), (AndW, DeletedWithin14Days),
                   (AndW, StateNe ''state'')],
        bindings := [(''userId'', Text uid), (''state'', StateVal Processing)]\<rparr>) =
   (\<lambda>r. visible t r \<and> userId r = uid \<and>
    (\<exists>d. deletedAt r = Some d \<and> now e - days14 \<le> d) \<and> state r \<noteq> Processing)"
  by (rule ext)
     (auto simp: selected_def matches_def getParameters_def createQueryBuilder_def column_def
      split: option.splits)

subsection \<open>The trash scope\<close>

text \<open>
  Claim C6, as the code has it. With the TRASH scope filter every returned item has a
  \<open>deletedAt\<close> of at least \<open>now - 14 days\<close>, whatever the other filters are (so an
  item deleted 15 days ago is excluded); the query sets no upper bound. With TRASH as
  the only filter the rows counted are exactly the user's rows in that window that
  are not in state Processing: the exclusion of the Deleted state is not applied.
\<close>

theorem trash_scope_lower_bound:
  "(inFilter args = Some TRASH \<and> searchLibraryItems e args uid s = (Inr (items, cnt), s') \<longrightarrow>
      (\<forall>r \<in> set items. \<exists>d. deletedAt r = Some d \<and> now e - days14 \<le> d)) \<and>
   (\<exists>page. searchLibraryItems e
        (no_args\<lparr>inFilter := Some TRASH, from_arg := f, size_arg := z, sort_arg := so\<rparr>) uid s =
      (Inr (page,
            length (filter
              (\<lambda>r. scope e (Some uid) r \<and> userId r = uid \<and>
                   (\<exists>d. deletedAt r = Some d \<and> now e - days14 \<le> d) \<and> state r \<noteq> Processing)
              (library_items s))),
       s))"
proof (intro conjI impI ballI)
  fix r
  assume a: "inFilter args = Some TRASH \<and> searchLibraryItems e args uid s = (Inr (items, cnt), s')"
    and r: "r \<in> set items"
  let ?qb = "buildWhereClause (now e)
          (where_first (ColEq ''user_id'' ''userId'') [(''userId'', Text uid)] createQueryBuilder)
          args"
  from search_items_selected [OF conjunct2 [OF a] r] have "matches e ?qb r"
    by (simp add: selected_def)
  then have "\<forall>(t, c) \<in> set (wheres ?qb). holds e (getParameters ?qb) r c"
    by (simp add: matches_all [OF search_no_or])
  with TRASH_clause_present [OF conjunct1 [OF a]]
  have "holds e (getParameters ?qb) r DeletedWithin14Days" by blast
  then show "\<exists>d. deletedAt r = Some d \<and> now e - days14 \<le> d"
    by (simp split: option.splits)
next
  show "\<exists>page. searchLibraryItems e
        (no_args\<lparr>inFilter := Some TRASH, from_arg := f, size_arg := z, sort_arg := so\<rparr>) uid s =
      (Inr (page,
            length (filter
              (\<lambda>r. scope e (Some uid) r \<and> userId r = uid \<and>
                   (\<exists>d. deletedAt r = Some d \<and> now e - days14 \<le> d) \<and> state r \<noteq> Processing)
              (library_items s))),
       s)"
    by (simp add: searchLibraryItems_eq trash_only_builder trash_only_selected)
qed

lemmas builder_defs =
  buildWhereClause_def where_query_def where_typeFilter_def where_inFilter_def
  where_readFilter_def where_hasFilters_def where_labelFilters_def where_dateFilters_def
  where_termFilters_def where_matchFilters_def where_ids_def where_includePending_def
  where_includeDeleted_def where_noFilters_def where_recommendedBy_def where_first_def
  andWhere_def orWhere_def setParameters_def createQueryBuilder_def

lemmas query_defs =
  getMany_def getCount_def paginate_def order_rows_def selected_def matches_def
  getParameters_def order_value_def column_def take_n_def skip_def addOrderBy_def orderBy_def

lemma trash_future_run:
  "searchLibraryItems (sample_env 2000000000) (no_args\<lparr>inFilter := Some TRASH\<rparr>) ''u1''
     \<lparr>library_items = [trashed ''a'' ''u1'' 2086400000], entity_labels = []\<rparr> =
   (Inr ([trashed ''a'' ''u1'' 2086400000], 1),
    \<lparr>library_items = [trashed ''a'' ''u1'' 2086400000], entity_labels = []\<rparr>)"
  by (simp add: searchLibraryItems_def authTrx_def Let_def builder_defs query_defs no_args_def
      sample_env_def trashed_def sample_item_def days14_def)

text \<open>
  Claim C6 as stated fails in its upper bound: an item whose \<open>deletedAt\<close> is later
  than \<open>now\<close> is returned by the TRASH scope.
\<close>

theorem trash_scope_no_upper_bound:
  "fst (searchLibraryItems (sample_env 2000000000) (no_args\<lparr>inFilter := Some TRASH\<rparr>) ''u1''
     \<lparr>library_items = [trashed ''a'' ''u1'' 2086400000], entity_labels = []\<rparr>) =
   Inr ([trashed ''a'' ''u1'' 2086400000], 1) \<and>
   deletedAt (trashed ''a'' ''u1'' 2086400000) = Some 2086400000 \<and>
   now (sample_env 2000000000) < 2086400000"
  by (simp add: trash_future_run) (simp add: trashed_def sample_env_def)

lemma trash_window_run:
  "searchLibraryItems (sample_env 2000000000) (no_args\<lparr>inFilter := Some TRASH\<rparr>) ''u1''
     \<lparr>library_items =
        [trashed ''a'' ''u1'' 1900000000, trashed ''b'' ''u1'' 704000000,
         sample_item ''c'' ''u1''],
      entity_labels = []\<rparr> =
   (Inr ([trashed ''a'' ''u1'' 1900000000], 1),
    \<lparr>library_items =
        [trashed ''a'' ''u1'' 1900000000, trashed ''b'' ''u1'' 704000000,
         sample_item ''c'' ''u1''],
      entity_labels = []\<rparr>)"
  by (simp add: searchLibraryItems_def authTrx_def Let_def builder_defs query_defs no_args_def
      sample_env_def trashed_def sample_item_def days14_def)

theorem trash_scope_lower_bound_witness:
  "inFilter (no_args\<lparr>inFilter := Some TRASH\<rparr>) = Some TRASH \<and>
   state (trashed ''a'' ''u1'' 1900000000) = Deleted \<and>
   deletedAt (trashed ''a'' ''u1'' 1900000000) = Some 1900000000 \<and>
   now (sample_env 2000000000) - days14 \<le> 1900000000"
  using trash_scope_lower_bound
    [of "no_args\<lparr>inFilter := Some TRASH\<rparr>" "sample_env 2000000000" "''u1''"
      "\<lparr>library_items =
        [trashed ''a'' ''u1'' 1900000000, trashed ''b'' ''u1'' 704000000,
         sample_item ''c'' ''u1''],
      entity_labels = []\<rparr>" "[trashed ''a'' ''u1'' 1900000000]" 1
      "\<lparr>library_items =
        [trashed ''a'' ''u1'' 1900000000, trashed ''b'' ''u1'' 704000000,
         sample_item ''c'' ''u1''],
      entity_labels = []\<rparr>"]
    trash_window_run
  by (simp add: trashed_def)

subsection \<open>Notification failures at concrete inputs\<close>

lemma sample_restore_fail:
  "restoreLibraryItem (sample_env 5000) ''a'' ''u1'' failing_pubsub
     (sample_world [trashed ''a'' ''u1'' 4000]) =
   (Inl (NotificationFailed ''publish''),
    sample_world [(sample_item ''a'' ''u1'')\<lparr>savedAt := 5000\<rparr>])"
  by (simp add: restoreLibraryItem_def updateLibraryItem_def authTrx_def update_work_def
      repo_update_def findOneByOrFail_def sample_env_def failing_pubsub_def sample_world_def
      reset_timestamps_def empty_patch_def Let_def sample_item_def apply_patch_def trashed_def)

lemma sample_create_fail:
  "createLibraryItem (sample_env 5000) (sample_item ''b'' ''u1'') ''u1'' failing_pubsub
     (sample_world [sample_item ''a'' ''u1'']) =
   (Inl (NotificationFailed ''publish''),
    sample_world [sample_item ''a'' ''u1'', (sample_item ''b'' ''u1'')\<lparr>wordCount := Some 0\<rparr>])"
  by (simp add: createLibraryItem_def authTrx_def create_work_def repo_save_def
      sample_env_def failing_pubsub_def sample_world_def Let_def sample_item_def)

lemma sample_update_fail:
  "updateLibraryItem (sample_env 5000) ''a'' (empty_patch\<lparr>p_title := Some ''New''\<rparr>) ''u1''
     failing_pubsub (sample_world [sample_item ''a'' ''u1'']) =
   (Inl (NotificationFailed ''publish''),
    sample_world [(sample_item ''a'' ''u1'')\<lparr>title := ''New''\<rparr>])"
  by (simp add: updateLibraryItem_def authTrx_def update_work_def repo_update_def
      findOneByOrFail_def sample_env_def failing_pubsub_def sample_world_def
      reset_timestamps_def empty_patch_def Let_def sample_item_def apply_patch_def)

theorem notification_failure_after_commit_witness:
  "updateLibraryItem (sample_env 5000) ''a'' (empty_patch\<lparr>p_title := Some ''New''\<rparr>) ''u1''
     failing_pubsub (sample_world [sample_item ''a'' ''u1'']) =
   (Inl (NotificationFailed ''publish''),
    sample_world [(sample_item ''a'' ''u1'')\<lparr>title := ''New''\<rparr>]) \<and>
   restoreLibraryItem (sample_env 5000) ''a'' ''u1'' failing_pubsub
     (sample_world [trashed ''a'' ''u1'' 4000]) =
   (Inl (NotificationFailed ''publish''),
    sample_world [(sample_item ''a'' ''u1'')\<lparr>savedAt := 5000\<rparr>]) \<and>
   createLibraryItem (sample_env 5000) (sample_item ''b'' ''u1'') ''u1'' failing_pubsub
     (sample_world [sample_item ''a'' ''u1'']) =
   (Inl (NotificationFailed ''publish''),
    sample_world [sample_item ''a'' ''u1'', (sample_item ''b'' ''u1'')\<lparr>wordCount := Some 0\<rparr>])"
  using
    notification_failure_after_commit
      [where e = "sample_env 5000" and i = "''a''" and p = "empty_patch\<lparr>p_title := Some ''New''\<rparr>"
         and uid = "''u1''" and w = "sample_world [sample_item ''a'' ''u1'']"
         and item = "(sample_item ''a'' ''u1'')\<lparr>title := ''New''\<rparr>"
         and q = "empty_patch\<lparr>p_title := Some ''New''\<rparr>"
         and st = "\<lparr>library_items = [(sample_item ''a'' ''u1'')\<lparr>title := ''New''\<rparr>], entity_labels = []\<rparr>"
         and pubsub = failing_pubsub and err = "NotificationFailed ''publish''",
       THEN conjunct1]
    notification_failure_after_commit
      [where e = "sample_env 5000" and i = "''a''"
         and uid = "''u1''" and w = "sample_world [trashed ''a'' ''u1'' 4000]"
         and item = "(sample_item ''a'' ''u1'')\<lparr>savedAt := 5000\<rparr>"
         and q = "empty_patch\<lparr>p_state := Some Succeeded, p_savedAt := Some 5000,
           p_archivedAt := Some None, p_deletedAt := Some None\<rparr>"
         and st = "\<lparr>library_items = [(sample_item ''a'' ''u1'')\<lparr>savedAt := 5000\<rparr>], entity_labels = []\<rparr>"
         and pubsub = failing_pubsub and err = "NotificationFailed ''publish''",
       THEN conjunct2, THEN conjunct1]
    notification_failure_after_commit
      [where e = "sample_env 5000" and x = "sample_item ''b'' ''u1''"
         and uid = "''u1''" and w = "sample_world [sample_item ''a'' ''u1'']"
         and item = "(sample_item ''b'' ''u1'')\<lparr>wordCount := Some 0\<rparr>"
         and st = "\<lparr>library_items = [sample_item ''a'' ''u1'', (sample_item ''b'' ''u1'')\<lparr>wordCount := Some 0\<rparr>], entity_labels = []\<rparr>"
         and pubsub = failing_pubsub and err = "NotificationFailed ''publish''",
       THEN conjunct2, THEN conjunct2]
  by (simp add: authTrx_def update_work_def create_work_def repo_update_def repo_save_def
      findOneByOrFail_def sample_env_def failing_pubsub_def sample_world_def
      reset_timestamps_def empty_patch_def Let_def sample_item_def apply_patch_def trashed_def)

lemma sample_restore_run:
  "updateLibraryItem (sample_env 5000) ''a''
     (empty_patch\<lparr>p_state := Some Succeeded, p_savedAt := Some 5000,
        p_archivedAt := Some None, p_deletedAt := Some None\<rparr>) ''u1''
     quiet_pubsub (sample_world [trashed ''a'' ''u1'' 4000]) =
   (Inr ((sample_item ''a'' ''u1'')\<lparr>savedAt := 5000\<rparr>),
    \<lparr>db = \<lparr>library_items = [(sample_item ''a'' ''u1'')\<lparr>savedAt := 5000\<rparr>], entity_labels = []\<rparr>,
     published =
       [EntityUpdated PAGE
          \<lparr>payload_patch =
             empty_patch\<lparr>p_state := Some Succeeded, p_savedAt := Some 5000,
               p_archivedAt := Some None, p_deletedAt := Some None\<rparr>,
           payload_id = ''a''\<rparr> ''u1'']\<rparr>)"
  by (simp add: updateLibraryItem_def authTrx_def update_work_def repo_update_def
      findOneByOrFail_def sample_env_def quiet_pubsub_def sample_world_def
      reset_timestamps_def empty_patch_def Let_def apply_patch_def sample_item_def trashed_def)

theorem update_payload_is_written_patch_witness:
  "published (sample_world [sample_item ''a'' ''u1'']) @
     [EntityUpdated PAGE
        \<lparr>payload_patch = empty_patch\<lparr>p_state := Some Archived, p_archivedAt := Some (Some 5000)\<rparr>,
         payload_id = ''a''\<rparr> ''u1''] =
   [EntityUpdated PAGE
      \<lparr>payload_patch =
         reset_timestamps (now (sample_env 5000)) (empty_patch\<lparr>p_state := Some Archived\<rparr>),
       payload_id = ''a''\<rparr> ''u1''] \<and>
   reset_timestamps (now (sample_env 5000))
     (empty_patch\<lparr>p_state := Some Succeeded, p_savedAt := Some 5000,
        p_archivedAt := Some None, p_deletedAt := Some None\<rparr>) =
     empty_patch\<lparr>p_state := Some Succeeded, p_savedAt := Some 5000,
        p_archivedAt := Some None, p_deletedAt := Some None\<rparr> \<and>
   published (snd (restoreLibraryItem (sample_env 5000) ''a'' ''u1'' quiet_pubsub
       (sample_world [trashed ''a'' ''u1'' 4000]))) =
     [EntityUpdated PAGE
        \<lparr>payload_patch =
           empty_patch\<lparr>p_state := Some Succeeded, p_savedAt := Some 5000,
             p_archivedAt := Some None, p_deletedAt := Some None\<rparr>,
         payload_id = ''a''\<rparr> ''u1'']"
  using update_payload_is_written_patch [OF sample_update_run]
    update_payload_is_written_patch [OF sample_restore_run] sample_restore_run
  by (simp add: sample_world_def restoreLibraryItem_def)
     (simp add: sample_env_def empty_patch_def)

subsection \<open>Search: ordering, page and count\<close>

lemma orderBys_andWhere: "orderBys (andWhere c ps qb) = orderBys qb"
  by (simp add: andWhere_def setParameters_def)

lemma orderBys_foldl:
  assumes "\<And>q f. orderBys (stp q f) = orderBys q"
  shows "orderBys (foldl stp qb fs) = orderBys qb"
  by (induction fs arbitrary: qb) (simp_all add: assms)

lemma orderBys_include_loop: "orderBys (include_loop i fs qb) = orderBys qb"
  by (induction fs arbitrary: i qb) (simp_all add: orderBys_andWhere)

lemma orderBys_has_step: "orderBys (has_step qb f) = orderBys qb"
  by (cases f) (simp_all add: orderBys_andWhere)

lemma orderBys_blocks:
  "orderBys (where_typeFilter args qb) = orderBys qb"
  "orderBys (where_inFilter args qb) = orderBys qb"
  "orderBys (where_readFilter args qb) = orderBys qb"
  "orderBys (where_hasFilters args qb) = orderBys qb"
  "orderBys (where_labelFilters args qb) = orderBys qb"
  "orderBys (where_dateFilters n args qb) = orderBys qb"
  "orderBys (where_termFilters args qb) = orderBys qb"
  "orderBys (where_matchFilters args qb) = orderBys qb"
  "orderBys (where_ids args qb) = orderBys qb"
  "orderBys (where_includePending args qb) = orderBys qb"
  "orderBys (where_includeDeleted args qb) = orderBys qb"
  "orderBys (where_noFilters args qb) = orderBys qb"
  "orderBys (where_recommendedBy args qb) = orderBys qb"
  by (simp_all add: where_typeFilter_def where_inFilter_def where_readFilter_def
      where_hasFilters_def where_labelFilters_def where_dateFilters_def where_termFilters_def
      where_matchFilters_def where_ids_def where_includePending_def where_includeDeleted_def
      where_noFilters_def where_recommendedBy_def date_step_def term_step_def match_step_def
      no_step_def Let_def orderBys_andWhere orderBys_foldl orderBys_include_loop
      orderBys_has_step split: option.splits InFilter.splits ReadFilter.splits)

lemma orderBys_buildWhereClause:
  "query args = None \<or> query args = Some [] \<Longrightarrow>
   orderBys (buildWhereClause n qb args) = orderBys qb"
  by (simp only: buildWhereClause_def orderBys_blocks) (auto simp: where_query_def)

lemma insert_row_sorted_desc:
  fixes key :: "'a \<Rightarrow> int"
  assumes "\<And>a b. lt a b = (key b < key a)"
  shows "sorted_wrt (\<lambda>a b. key b \<le> key a) xs \<Longrightarrow>
         sorted_wrt (\<lambda>a b. key b \<le> key a) (insert_row lt x xs)"
  by (induction xs) (auto simp: assms insert_row_set)

lemma order_rows_sorted_desc:
  fixes key :: "'a \<Rightarrow> int"
  assumes "\<And>a b. lt a b = (key b < key a)"
  shows "sorted_wrt (\<lambda>a b. key b \<le> key a) (order_rows lt xs)"
  by (induction xs) (simp_all add: order_rows_def insert_row_sorted_desc [OF assms, unfolded order_rows_def])

lemma row_before_saved_desc:
  "row_before e qb [(ByColumn ''saved_at'', DESCENDING, NullsLast)] a b = (savedAt b < savedAt a)"
  by (simp add: order_value_def column_def)

lemma blocks_ignore_paging:
  "where_query (args\<lparr>from_arg := f, size_arg := z\<rparr>) = where_query args"
  "where_typeFilter (args\<lparr>from_arg := f, size_arg := z\<rparr>) = where_typeFilter args"
  "where_inFilter (args\<lparr>from_arg := f, size_arg := z\<rparr>) = where_inFilter args"
  "where_readFilter (args\<lparr>from_arg := f, size_arg := z\<rparr>) = where_readFilter args"
  "where_hasFilters (args\<lparr>from_arg := f, size_arg := z\<rparr>) = where_hasFilters args"
  "where_labelFilters (args\<lparr>from_arg := f, size_arg := z\<rparr>) = where_labelFilters args"
  "where_dateFilters n (args\<lparr>from_arg := f, size_arg := z\<rparr>) = where_dateFilters n args"
  "where_termFilters (args\<lparr>from_arg := f, size_arg := z\<rparr>) = where_termFilters args"
  "where_matchFilters (args\<lparr>from_arg := f, size_arg := z\<rparr>) = where_matchFilters args"
  "where_ids (args\<lparr>from_arg := f, size_arg := z\<rparr>) = where_ids args"
  "where_includePending (args\<lparr>from_arg := f, size_arg := z\<rparr>) = where_includePending args"
  "where_includeDeleted (args\<lparr>from_arg := f, size_arg := z\<rparr>) = where_includeDeleted args"
  "where_noFilters (args\<lparr>from_arg := f, size_arg := z\<rparr>) = where_noFilters args"
  "where_recommendedBy (args\<lparr>from_arg := f, size_arg := z\<rparr>) = where_recommendedBy args"
  by (rule ext, simp add: where_query_def where_typeFilter_def where_inFilter_def
      where_readFilter_def where_hasFilters_def where_labelFilters_def where_dateFilters_def
      where_termFilters_def where_matchFilters_def where_ids_def where_includePending_def
      where_includeDeleted_def where_noFilters_def where_recommendedBy_def)+

lemma buildWhereClause_ignores_paging:
  "buildWhereClause n qb (args\<lparr>from_arg := f, size_arg := z\<rparr>) = buildWhereClause n qb args"
  by (simp only: buildWhereClause_def blocks_ignore_paging)

lemma paginate_take_n_skip:
  "paginate (take_n z (skip f qb)) xs = take z (drop f xs)"
  by (simp add: paginate_def take_n_def skip_def)

lemma orderBys_paged:
  "orderBys (take_n z (skip f (addOrderBy k ord nl qb))) = orderBys qb @ [(k, ord, nl)]"
  by (simp add: take_n_def skip_def addOrderBy_def)


lemma insert_row_mset: "mset (insert_row lt x xs) = add_mset x (mset xs)"
  by (induction xs) auto

lemma order_rows_mset: "mset (order_rows lt xs) = mset xs"
  by (induction xs) (simp_all add: order_rows_def insert_row_mset)

lemma getMany_paged:
  "getMany e t (take_n z (skip f (addOrderBy k ord nl qb))) s =
   take z (drop f
     (order_rows (row_before e qb (orderBys qb @ [(k, ord, nl)]))
        (filter (selected e t qb) (library_items s))))"
proof -
  have rb: "row_before e (take_n z (skip f (addOrderBy k ord nl qb))) = row_before e qb"
  proof (intro ext)
    fix ks a b
    have gp: "getParameters (take_n z (skip f (addOrderBy k ord nl qb))) = getParameters qb"
      by (simp add: getParameters_def take_n_def skip_def addOrderBy_def)
    have ov: "order_value e (take_n z (skip f (addOrderBy k ord nl qb))) = order_value e qb"
      by (intro ext) (simp only: order_value_def gp)
    show "row_before e (take_n z (skip f (addOrderBy k ord nl qb))) ks a b = row_before e qb ks a b"
      by (induction ks) (auto simp: ov)
  qed
  show ?thesis
    by (simp add: getMany_def paginate_take_n_skip orderBys_paged selected_paged rb)
qed

text \<open>
  Claim C9. \<open>searchLibraryItems\<close> reads only. Its count is the number of rows the
  predicate selects, whatever the offset and the limit are. Its page is the slice
  \<open>take size (drop from all)\<close> of the ordered selection, with offset 0 and limit 10
  when they are absent, so it has \<open>min size (count - from)\<close> rows; without a sort
  argument and without a query the selection is ordered by save time, descending.
  With \<open>from = 10\<close> and \<open>size = 5\<close> over 12 selected rows the page has 2 rows and the
  count is 12 (the instance after the theorem).
\<close>

theorem search_page_and_count:
  assumes "searchLibraryItems e args uid s = (Inr (items, cnt), s')"
  shows "s' = s \<and>
     cnt =
       length (filter
         (selected e \<lparr>visible = scope e (Some uid)\<rparr>
            (buildWhereClause (now e)
               (where_first (ColEq ''user_id'' ''userId'') [(''userId'', Text uid)]
                  createQueryBuilder)
               args))
         (library_items s)) \<and>
     (\<forall>f z items' cnt' s''.
        searchLibraryItems e (args\<lparr>from_arg := f, size_arg := z\<rparr>) uid s =
          (Inr (items', cnt'), s'') \<longrightarrow> cnt' = cnt) \<and>
     length items =
       min (case size_arg args of None \<Rightarrow> 10 | Some n \<Rightarrow> n)
         (cnt - (case from_arg args of None \<Rightarrow> 0 | Some n \<Rightarrow> n)) \<and>
     (\<exists>all.
        mset all =
          mset (filter
            (selected e \<lparr>visible = scope e (Some uid)\<rparr>
               (buildWhereClause (now e)
                  (where_first (ColEq ''user_id'' ''userId'') [(''userId'', Text uid)]
                     createQueryBuilder)
                  args))
            (library_items s)) \<and>
        items =
          take (case size_arg args of None \<Rightarrow> 10 | Some n \<Rightarrow> n)
            (drop (case from_arg args of None \<Rightarrow> 0 | Some n \<Rightarrow> n) all) \<and>
        (sort_arg args = None \<and> (query args = None \<or> query args = Some []) \<longrightarrow>
           sorted_wrt (\<lambda>a b. savedAt b \<le> savedAt a) all))"
proof -
  let ?t = "\<lparr>visible = scope e (Some uid)\<rparr>"
  let ?qb0 = "where_first (ColEq ''user_id'' ''userId'') [(''userId'', Text uid)] createQueryBuilder"
  let ?qb = "buildWhereClause (now e) ?qb0 args"
  let ?size = "case size_arg args of None \<Rightarrow> 10 | Some n \<Rightarrow> n"
  let ?from = "case from_arg args of None \<Rightarrow> 0 | Some n \<Rightarrow> n"
  let ?k = "ByColumn (sort_column (case sort_arg args of None \<Rightarrow> SAVED | Some so \<Rightarrow> sort_by so))"
  let ?ord = "case sort_arg args of
                None \<Rightarrow> DESCENDING
              | Some so \<Rightarrow> (case sort_order so of None \<Rightarrow> DESCENDING | Some ord \<Rightarrow> ord)"
  let ?sel = "filter (selected e ?t ?qb) (library_items s)"
  let ?all = "order_rows (row_before e ?qb (orderBys ?qb @ [(?k, ?ord, NullsLast)])) ?sel"
  from assms have s: "s' = s" and c: "cnt = length ?sel"
    and i: "items = getMany e ?t (take_n ?size (skip ?from (addOrderBy ?k ?ord NullsLast ?qb))) s"
    by (auto simp: searchLibraryItems_eq)
  from i have items: "items = take ?size (drop ?from ?all)"
    by (simp only: getMany_paged)
  have indep: "\<forall>f z items' cnt' s''.
        searchLibraryItems e (args\<lparr>from_arg := f, size_arg := z\<rparr>) uid s =
          (Inr (items', cnt'), s'') \<longrightarrow> cnt' = cnt"
    by (auto simp: searchLibraryItems_eq buildWhereClause_ignores_paging c)
  have len: "length items = min ?size (cnt - ?from)"
    by (simp add: items c order_rows_length)
  have ms: "mset ?all = mset ?sel" by (rule order_rows_mset)
  have srt: "sort_arg args = None \<and> (query args = None \<or> query args = Some []) \<longrightarrow>
           sorted_wrt (\<lambda>a b. savedAt b \<le> savedAt a) ?all"
  proof
    assume a: "sort_arg args = None \<and> (query args = None \<or> query args = Some [])"
    then have ob: "orderBys ?qb = []"
      by (simp add: orderBys_buildWhereClause where_first_def setParameters_def createQueryBuilder_def)
    from a have k: "?k = ByColumn ''saved_at''" and o: "?ord = DESCENDING" by simp_all
    show "sorted_wrt (\<lambda>a b. savedAt b \<le> savedAt a) ?all"
      unfolding ob k o append_Nil
      by (rule order_rows_sorted_desc) (rule row_before_saved_desc)
  qed
  from ms items srt have ex: "\<exists>all. mset all = mset ?sel \<and> items = take ?size (drop ?from all) \<and>
        (sort_arg args = None \<and> (query args = None \<or> query args = Some []) \<longrightarrow>
           sorted_wrt (\<lambda>a b. savedAt b \<le> savedAt a) all)"
    by (intro exI [of _ ?all] conjI)
  show ?thesis by (intro conjI s c indep len ex)
qed

lemma page_rows_count:
  "length (filter
     (selected (sample_env 5000) \<lparr>visible = scope (sample_env 5000) (Some ''u1'')\<rparr>
        (buildWhereClause (now (sample_env 5000))
           (where_first (ColEq ''user_id'' ''userId'') [(''userId'', Text ''u1'')]
              createQueryBuilder)
           (no_args\<lparr>from_arg := Some 10, size_arg := Some 5\<rparr>)))
     page_rows) = 12"
  by (simp add: builder_defs no_args_def selected_def matches_def getParameters_def column_def
      sample_env_def page_rows_def sample_item_def trashed_def)

theorem search_page_and_count_witness:
  "length (fst (projr (fst (searchLibraryItems (sample_env 5000)
       (no_args\<lparr>from_arg := Some 10, size_arg := Some 5\<rparr>) ''u1''
       \<lparr>library_items = page_rows, entity_labels = []\<rparr>)))) = 2 \<and>
   snd (projr (fst (searchLibraryItems (sample_env 5000)
       (no_args\<lparr>from_arg := Some 10, size_arg := Some 5\<rparr>) ''u1''
       \<lparr>library_items = page_rows, entity_labels = []\<rparr>))) = 12"
  using search_page_and_count [OF searchLibraryItems_eq [of "sample_env 5000"
      "no_args\<lparr>from_arg := Some 10, size_arg := Some 5\<rparr>" "''u1''"
      "\<lparr>library_items = page_rows, entity_labels = []\<rparr>"]]
    page_rows_count
  by (simp add: searchLibraryItems_eq)

subsection \<open>Bound parameters\<close>

text \<open>Which blocks of \<open>buildWhereClause\<close> leave the binding of a parameter name as it
  was.\<close>

lemma getParameters_wheres_update: "getParameters (qb\<lparr>wheres := w\<rparr>) = getParameters qb"
  by (simp add: getParameters_def)

lemma getParameters_setParameters:
  "getParameters (setParameters ps qb) k =
    (case map_of (rev ps) k of None \<Rightarrow> getParameters qb k | Some v \<Rightarrow> Some v)"
  by (simp add: getParameters_def setParameters_def map_add_def split: option.split)

lemma getParameters_andWhere:
  "getParameters (andWhere c ps qb) k =
    (case map_of (rev ps) k of None \<Rightarrow> getParameters qb k | Some v \<Rightarrow> Some v)"
  by (simp add: andWhere_def getParameters_setParameters getParameters_wheres_update
      split: option.split)

lemma keep_andWhere:
  "k \<notin> fst ` set ps \<Longrightarrow> getParameters (andWhere c ps qb) k = getParameters qb k"
proof -
  assume "k \<notin> fst ` set ps"
  then have "map_of (rev ps) k = None"
    by (simp add: map_of_eq_None_iff)
  then show ?thesis by (simp add: getParameters_andWhere)
qed

lemma keep_foldl:
  assumes "\<And>q f. getParameters (stp q f) k = getParameters q k"
  shows "getParameters (foldl stp qb fs) k = getParameters qb k"
  by (induction fs arbitrary: qb) (simp_all add: assms)










lemma keep_dateFilters:
  assumes "\<forall>f. k \<noteq> f @ ''_start''" "\<forall>f. k \<noteq> f @ ''_end''"
  shows "getParameters (where_dateFilters n args qb) k = getParameters qb k"
proof -
  have "getParameters (date_step n q f) k = getParameters q k" for q f
    using assms by (simp add: date_step_def Let_def keep_andWhere)
  then show ?thesis
    by (simp add: where_dateFilters_def keep_foldl split: option.splits)
qed

lemma keep_termFilters:
  assumes "\<forall>f. k \<noteq> ''term_'' @ f"
  shows "getParameters (where_termFilters args qb) k = getParameters qb k"
proof -
  have "getParameters (term_step q f) k = getParameters q k" for q f
    using assms by (simp add: term_step_def Let_def keep_andWhere)
  then show ?thesis
    by (simp add: where_termFilters_def keep_foldl split: option.splits)
qed

lemma keep_matchFilters:
  assumes "\<forall>f. k \<noteq> ''match_'' @ f"
  shows "getParameters (where_matchFilters args qb) k = getParameters qb k"
proof -
  have "getParameters (match_step q f) k = getParameters q k" for q f
    using assms by (simp add: match_step_def Let_def keep_andWhere)
  then show ?thesis
    by (simp add: where_matchFilters_def keep_foldl split: option.splits)
qed

lemma keep_ids: "k \<noteq> ''ids'' \<Longrightarrow> getParameters (where_ids args qb) k = getParameters qb k"
  by (simp add: where_ids_def keep_andWhere split: option.splits)

lemma keep_includePending:
  "k \<noteq> ''state'' \<Longrightarrow> getParameters (where_includePending args qb) k = getParameters qb k"
  by (simp add: where_includePending_def keep_andWhere)

lemma keep_includeDeleted:
  "k \<noteq> ''state'' \<Longrightarrow> getParameters (where_includeDeleted args qb) k = getParameters qb k"
  by (simp add: where_includeDeleted_def keep_andWhere)

lemma keep_noFilters: "getParameters (where_noFilters args qb) k = getParameters qb k"
proof -
  have "getParameters (no_step q f) k = getParameters q k" for q f
    by (simp add: no_step_def keep_andWhere)
  then show ?thesis
    by (simp add: where_noFilters_def keep_foldl split: option.splits)
qed

lemma keep_recommendedBy:
  "k \<noteq> ''recommendedBy'' \<Longrightarrow>
   getParameters (where_recommendedBy args qb) k = getParameters qb k"
  by (simp add: where_recommendedBy_def keep_andWhere split: option.splits)

lemma keep_after_labels:
  assumes "\<forall>f. k \<noteq> f @ ''_start''" "\<forall>f. k \<noteq> f @ ''_end''"
    "\<forall>f. k \<noteq> ''term_'' @ f" "\<forall>f. k \<noteq> ''match_'' @ f"
    "k \<noteq> ''ids''" "k \<noteq> ''state''" "k \<noteq> ''recommendedBy''"
  shows "getParameters
      (where_recommendedBy args
        (where_noFilters args
          (where_includeDeleted args
            (where_includePending args
              (where_ids args
                (where_matchFilters args
                  (where_termFilters args
                    (where_dateFilters n args qb)))))))) k = getParameters qb k"
  by (simp only: keep_recommendedBy [OF assms(7)] keep_noFilters keep_includeDeleted [OF assms(6)]
      keep_includePending [OF assms(6)] keep_ids [OF assms(5)] keep_matchFilters [OF assms(4)]
      keep_termFilters [OF assms(3)] keep_dateFilters [OF assms(1,2)])


subsection \<open>Parameter names\<close>

text \<open>
  Claim C3 fails on the code. For the filter specification with no field set,
  \<open>buildWhereClause\<close> binds the name \<open>state\<close> twice, to Processing and then to Deleted,
  so the names are not pairwise distinct and the query runs with \<open>state\<close> bound to
  Deleted for both clauses. Two date filters on the same field bind \<open>saved_at_start\<close>
  and \<open>saved_at_end\<close> twice, and the second filter's dates replace the first's.
\<close>

theorem state_parameter_bound_twice:
  "map fst (bindings (buildWhereClause 5000 createQueryBuilder no_args)) = [''state'', ''state''] \<and>
   \<not> distinct (map fst (bindings (buildWhereClause 5000 createQueryBuilder no_args))) \<and>
   bindings (buildWhereClause 5000 createQueryBuilder no_args) =
     [(''state'', StateVal Processing), (''state'', StateVal Deleted)] \<and>
   getParameters (buildWhereClause 5000 createQueryBuilder no_args) ''state'' =
     Some (StateVal Deleted) \<and>
   map fst (bindings (buildWhereClause 5000 createQueryBuilder
     (no_args\<lparr>dateFilters :=
         Some [\<lparr>df_field = ''saved_at'', startDate = Some 1000, endDate = Some 2000\<rparr>,
               \<lparr>df_field = ''saved_at'', startDate = Some 3000, endDate = None\<rparr>],
       includePending := Some True\<rparr>))) =
     [''saved_at_start'', ''saved_at_end'', ''saved_at_start'', ''saved_at_end'', ''state''] \<and>
   getParameters (buildWhereClause 5000 createQueryBuilder
     (no_args\<lparr>dateFilters :=
         Some [\<lparr>df_field = ''saved_at'', startDate = Some 1000, endDate = Some 2000\<rparr>,
               \<lparr>df_field = ''saved_at'', startDate = Some 3000, endDate = None\<rparr>],
       includePending := Some True\<rparr>)) ''saved_at_start'' = Some (Timestamp 3000)"
  by (simp add: builder_defs date_step_def Let_def no_args_def getParameters_def)

text \<open>What the query of a search with no filter selects: the user's rows that are not
  in state Deleted.\<close>

lemma default_query_selects:
  "selected e t
     (buildWhereClause n
        (where_first (ColEq ''user_id'' ''userId'') [(''userId'', Text uid)] createQueryBuilder)
        no_args) =
   (\<lambda>r. visible t r \<and> userId r = uid \<and> state r \<noteq> Deleted)"
  by (rule ext)
     (auto simp: builder_defs no_args_def selected_def matches_def getParameters_def column_def)

text \<open>
  Claim C4 fails on the code. For the filter specification with no field set the two
  clauses added are both \<open>library_item.state != :state\<close>, and the one parameter
  \<open>state\<close> ends bound to Deleted, so no clause excludes Processing: a search with no
  filter returns an item in state Processing.
\<close>

theorem default_search_returns_processing:
  "wheres (buildWhereClause 5000 createQueryBuilder no_args) =
     [(AndW, StateNe ''state''), (AndW, StateNe ''state'')] \<and>
   getParameters (buildWhereClause 5000 createQueryBuilder no_args) ''state'' =
     Some (StateVal Deleted) \<and>
   fst (searchLibraryItems (sample_env 5000) no_args ''u1''
     \<lparr>library_items = [(sample_item ''a'' ''u1'')\<lparr>state := Processing\<rparr>], entity_labels = []\<rparr>) =
     Inr ([(sample_item ''a'' ''u1'')\<lparr>state := Processing\<rparr>], 1)"
  by (simp add: searchLibraryItems_def authTrx_def Let_def builder_defs query_defs no_args_def
      sample_env_def sample_item_def)

subsection \<open>Scoping to the owning user\<close>












subsection \<open>Label filters\<close>

lemma string_of_nat_nonempty: "string_of_nat n \<noteq> []"
  by (subst string_of_nat.simps) simp

lemma last_string_of_nat: "last (string_of_nat n) = char_of (48 + n mod 10)"
  by (subst string_of_nat.simps) (simp add: string_of_nat_nonempty)

lemma digit_char_inj:
  assumes "char_of (48 + a mod 10 :: nat) = char_of (48 + b mod 10 :: nat)"
  shows "a mod 10 = b mod 10"
proof -
  from assms have "(48 + a mod 10) mod 256 = (48 + b mod 10) mod 256" by simp
  moreover have "48 + a mod 10 < 256" "48 + b mod 10 < 256"
    by (simp_all add: less_trans [OF add_strict_left_mono [of _ 10 48]])
  ultimately show ?thesis by simp
qed

lemma string_of_nat_inj: "string_of_nat m = string_of_nat n \<Longrightarrow> m = n"
proof (induction m arbitrary: n rule: string_of_nat.induct)
  case (1 m)
  from "1.prems" have l: "last (string_of_nat m) = last (string_of_nat n)" by simp
  then have md: "m mod 10 = n mod 10"
    by (simp only: last_string_of_nat) (rule digit_char_inj)
  show ?case
  proof (cases "m < 10")
    case True
    show ?thesis
    proof (cases "n < 10")
      case True
      with \<open>m < 10\<close> md show ?thesis by simp
    next
      case False
      from "1.prems" have "length (string_of_nat m) = length (string_of_nat n)" by simp
      with \<open>m < 10\<close> False string_of_nat_nonempty [of "n div 10"] show ?thesis
        by (subst (asm) (1 2) string_of_nat.simps) (simp add: Suc_length_conv)
    qed
  next
    case False
    show ?thesis
    proof (cases "n < 10")
      case True
      from "1.prems" have "length (string_of_nat m) = length (string_of_nat n)" by simp
      with True False string_of_nat_nonempty [of "m div 10"] show ?thesis
        by (subst (asm) (1 2) string_of_nat.simps) (simp add: Suc_length_conv)
    next
      case nf: False
      from "1.prems" False nf have "string_of_nat (m div 10) = string_of_nat (n div 10)"
        by (subst (asm) (1 2) string_of_nat.simps) simp
      from "1.IH" [OF False this] have "m div 10 = n div 10" .
      with md show ?thesis by (metis div_mult_mod_eq)
    qed
  qed
qed

lemma include_param_inj: "include_param i = include_param j \<Longrightarrow> i = j"
  by (simp add: include_param_def string_of_nat_inj)

lemma last_include_param: "last (include_param j) = char_of (48 + j mod 10)"
  by (simp add: include_param_def string_of_nat_nonempty last_string_of_nat)

lemma digit_not_letter:
  "char_of (48 + j mod 10 :: nat) \<noteq> CHR ''t''" "char_of (48 + j mod 10 :: nat) \<noteq> CHR ''d''"
proof -
  have b: "48 + j mod 10 < 256"
    by (simp add: less_trans [OF add_strict_left_mono [of _ 10 48]])
  have "48 + j mod 10 < 58" by simp
  then have "(48 + j mod 10) mod 256 \<noteq> 116" "(48 + j mod 10) mod 256 \<noteq> 100"
    using b by simp_all
  then show "char_of (48 + j mod 10 :: nat) \<noteq> CHR ''t''" "char_of (48 + j mod 10 :: nat) \<noteq> CHR ''d''"
    by (simp_all add: char_of_eq_iff take_bit_eq_mod)
qed

lemma include_param_not_suffixed:
  "include_param j \<noteq> f @ ''_start''" "include_param j \<noteq> f @ ''_end''"
proof -
  show "include_param j \<noteq> f @ ''_start''"
  proof
    assume "include_param j = f @ ''_start''"
    then have "last (include_param j) = last (f @ ''_start'')" by (rule arg_cong)
    then show False by (simp add: last_include_param digit_not_letter)
  qed
  show "include_param j \<noteq> f @ ''_end''"
  proof
    assume "include_param j = f @ ''_end''"
    then have "last (include_param j) = last (f @ ''_end'')" by (rule arg_cong)
    then show False by (simp add: last_include_param digit_not_letter)
  qed
qed

lemma excludeLabels_not_suffixed:
  "''excludeLabels'' \<noteq> f @ ''_start''" "''excludeLabels'' \<noteq> f @ ''_end''"
proof -
  show "''excludeLabels'' \<noteq> f @ ''_start''"
  proof
    assume "''excludeLabels'' = f @ ''_start''"
    then have "rev ''excludeLabels'' = rev (f @ ''_start'')" by (rule arg_cong)
    then show False by simp
  qed
  show "''excludeLabels'' \<noteq> f @ ''_end''"
  proof
    assume "''excludeLabels'' = f @ ''_end''"
    then have "rev ''excludeLabels'' = rev (f @ ''_end'')" by (rule arg_cong)
    then show False by simp
  qed
qed

lemma keep_include_loop_from:
  "\<forall>j \<ge> i. k \<noteq> include_param j \<Longrightarrow>
   getParameters (include_loop i fs qb) k = getParameters qb k"
  by (induction fs arbitrary: i qb) (simp_all add: keep_andWhere)

lemma include_loop_lookup:
  "j < length fs \<Longrightarrow>
   getParameters (include_loop i fs qb) (include_param (i + j)) = Some (Array (lf_labels (fs ! j)))"
proof (induction fs arbitrary: i j qb)
  case Nil
  then show ?case by simp
next
  case (Cons f fs)
  let ?q = "andWhere (LabelsOverlap (include_param i)) [(include_param i, Array (lf_labels f))] qb"
  show ?case
  proof (cases j)
    case 0
    have "\<forall>k \<ge> Suc i. include_param i \<noteq> include_param k"
      using include_param_inj by fastforce
    from keep_include_loop_from [OF this]
    have "getParameters (include_loop (Suc i) fs ?q) (include_param i) =
          getParameters ?q (include_param i)" .
    with 0 show ?thesis by (simp add: getParameters_andWhere)
  next
    case (Suc j')
    with Cons.prems have "j' < length fs" by simp
    from Cons.IH [OF this, of "Suc i" ?q] Suc show ?thesis by simp
  qed
qed

lemma include_loop_wheres:
  "wheres (include_loop i fs qb) =
   wheres qb @ map (\<lambda>j. (AndW, LabelsOverlap (include_param j))) [i..<i + length fs]"
proof (induction fs arbitrary: i qb)
  case Nil
  then show ?case by simp
next
  case (Cons f fs)
  have "[i..<i + length (f # fs)] = i # [Suc i..<Suc i + length fs]"
    by (subst upt_rec) simp
  with Cons.IH [of "Suc i"] show ?case
    by (simp add: wheres_andWhere)
qed


lemma where_labelFilters_Some:
  assumes "labelFilters args = Some lfs"
  shows "where_labelFilters args qb =
    (if filter (\<lambda>f. lf_type f = EXCLUDE) lfs = []
     then include_loop 0 (filter (\<lambda>f. lf_type f = INCLUDE) lfs) qb
     else andWhere (NotC (LabelsOverlap ''excludeLabels''))
            [(''excludeLabels'',
              Array (concat (map lf_labels (filter (\<lambda>f. lf_type f = EXCLUDE) lfs))))]
            (include_loop 0 (filter (\<lambda>f. lf_type f = INCLUDE) lfs) qb))"
proof (cases lfs)
  case Nil
  with assms show ?thesis by (simp add: where_labelFilters_def)
next
  case (Cons a list)
  have i: "(if filter (\<lambda>f. lf_type f = INCLUDE) lfs \<noteq> []
            then include_loop 0 (filter (\<lambda>f. lf_type f = INCLUDE) lfs) qb else qb) =
           include_loop 0 (filter (\<lambda>f. lf_type f = INCLUDE) lfs) qb"
    by simp
  from assms Cons have "where_labelFilters args qb =
    (if filter (\<lambda>f. lf_type f = EXCLUDE) lfs \<noteq> []
     then andWhere (NotC (LabelsOverlap ''excludeLabels''))
            [(''excludeLabels'',
              Array (concat (map lf_labels (filter (\<lambda>f. lf_type f = EXCLUDE) lfs))))]
            (if filter (\<lambda>f. lf_type f = INCLUDE) lfs \<noteq> []
             then include_loop 0 (filter (\<lambda>f. lf_type f = INCLUDE) lfs) qb else qb)
     else (if filter (\<lambda>f. lf_type f = INCLUDE) lfs \<noteq> []
           then include_loop 0 (filter (\<lambda>f. lf_type f = INCLUDE) lfs) qb else qb))"
    unfolding where_labelFilters_def Let_def by simp
  then show ?thesis unfolding i by simp
qed

lemma labels_wheres:
  assumes "labelFilters args = Some lfs"
  shows "wheres (where_labelFilters args qb) =
     wheres qb @
     map (\<lambda>i. (AndW, LabelsOverlap (include_param i)))
       [0..<length (filter (\<lambda>f. lf_type f = INCLUDE) lfs)] @
     (if filter (\<lambda>f. lf_type f = EXCLUDE) lfs = [] then []
      else [(AndW, NotC (LabelsOverlap ''excludeLabels''))])"
  by (simp add: where_labelFilters_Some [OF assms] include_loop_wheres wheres_andWhere)

lemma excludeLabels_not_include: "include_param j \<noteq> ''excludeLabels''"
  by (simp add: include_param_def)

lemma labels_lookup_include:
  assumes "labelFilters args = Some lfs" "j < length (filter (\<lambda>f. lf_type f = INCLUDE) lfs)"
  shows "getParameters (where_labelFilters args qb) (include_param j) =
     Some (Array (lf_labels (filter (\<lambda>f. lf_type f = INCLUDE) lfs ! j)))"
  using include_loop_lookup [OF assms(2), of 0 qb]
  by (simp add: where_labelFilters_Some [OF assms(1)] keep_andWhere excludeLabels_not_include)

lemma labels_lookup_exclude:
  assumes "labelFilters args = Some lfs" "filter (\<lambda>f. lf_type f = EXCLUDE) lfs \<noteq> []"
  shows "getParameters (where_labelFilters args qb) ''excludeLabels'' =
     Some (Array (concat (map lf_labels (filter (\<lambda>f. lf_type f = EXCLUDE) lfs))))"
  using assms(2)
  by (simp add: where_labelFilters_Some [OF assms(1)] getParameters_andWhere)

lemma ext_after_labels:
  "and_extension
     (where_labelFilters args (where_hasFilters args (where_readFilter args
        (where_inFilter args (where_typeFilter args (where_query args qb))))))
     (buildWhereClause n qb args)"
  unfolding buildWhereClause_def
  by (rule ext_recommendedBy, rule ext_noFilters, rule ext_includeDeleted,
      rule ext_includePending, rule ext_ids, rule ext_matchFilters, rule ext_termFilters,
      rule ext_dateFilters, rule and_extension_refl)

lemma keep_include_param_after:
  "getParameters (buildWhereClause n qb args) (include_param j) =
   getParameters
     (where_labelFilters args (where_hasFilters args (where_readFilter args
        (where_inFilter args (where_typeFilter args (where_query args qb))))))
     (include_param j)"
  unfolding buildWhereClause_def
  by (rule keep_after_labels)
     (simp_all add: include_param_not_suffixed, simp_all add: include_param_def)

lemma keep_excludeLabels_after:
  "getParameters (buildWhereClause n qb args) ''excludeLabels'' =
   getParameters
     (where_labelFilters args (where_hasFilters args (where_readFilter args
        (where_inFilter args (where_typeFilter args (where_query args qb))))))
     ''excludeLabels''"
  unfolding buildWhereClause_def
  by (rule keep_after_labels) (simp_all add: excludeLabels_not_suffixed)

lemma final_lookup_include:
  assumes "labelFilters args = Some lfs" "j < length (filter (\<lambda>f. lf_type f = INCLUDE) lfs)"
  shows "getParameters (buildWhereClause n qb args) (include_param j) =
     Some (Array (lf_labels (filter (\<lambda>f. lf_type f = INCLUDE) lfs ! j)))"
  by (simp only: keep_include_param_after labels_lookup_include [OF assms])

lemma final_lookup_exclude:
  assumes "labelFilters args = Some lfs" "filter (\<lambda>f. lf_type f = EXCLUDE) lfs \<noteq> []"
  shows "getParameters (buildWhereClause n qb args) ''excludeLabels'' =
     Some (Array (concat (map lf_labels (filter (\<lambda>f. lf_type f = EXCLUDE) lfs))))"
  by (simp only: keep_excludeLabels_after labels_lookup_exclude [OF assms])

lemma overlap_Nil: "\<not> overlap xs []"
  by (simp add: overlap_def)

lemma label_policy_sound:
  assumes lf: "labelFilters args = Some lfs"
    and no_or: "\<forall>(t, c) \<in> set (tl (wheres qb)). t \<noteq> OrW"
    and m: "matches e (buildWhereClause n qb args) r"
  shows "spec_label_policy lfs r"
proof -
  let ?incs = "filter (\<lambda>f. lf_type f = INCLUDE) lfs"
  let ?excs = "filter (\<lambda>f. lf_type f = EXCLUDE) lfs"
  let ?L = "where_labelFilters args (where_hasFilters args (where_readFilter args
        (where_inFilter args (where_typeFilter args (where_query args qb)))))"
  let ?F = "buildWhereClause n qb args"
  from m have all: "\<forall>(t, c) \<in> set (wheres ?F). holds e (getParameters ?F) r c"
    by (simp add: matches_all [OF and_extension_tl [OF ext_buildWhereClause no_or]])
  have sub: "set (wheres ?L) \<subseteq> set (wheres ?F)"
    by (rule and_extension_subset [OF ext_after_labels])
  have inc: "overlap (folded_labels r) (lf_labels f)" if f: "f \<in> set ?incs" for f
  proof -
    from f obtain j where j: "j < length ?incs" "?incs ! j = f"
      by (metis in_set_conv_nth)
    from j(1) have "(AndW, LabelsOverlap (include_param j)) \<in> set (wheres ?L)"
      by (simp add: labels_wheres [OF lf])
    with sub have "(AndW, LabelsOverlap (include_param j)) \<in> set (wheres ?F)"
      by (rule subsetD)
    with all have "holds e (getParameters ?F) r (LabelsOverlap (include_param j))" by blast
    with final_lookup_include [OF lf j(1), of n qb] j(2) show ?thesis by simp
  qed
  have exc: "\<not> overlap (folded_labels r) (concat (map lf_labels ?excs))"
  proof (cases "?excs = []")
    case True
    then show ?thesis by (simp add: overlap_Nil)
  next
    case False
    then have "(AndW, NotC (LabelsOverlap ''excludeLabels'')) \<in> set (wheres ?L)"
      by (simp add: labels_wheres [OF lf])
    with sub have "(AndW, NotC (LabelsOverlap ''excludeLabels'')) \<in> set (wheres ?F)"
      by (rule subsetD)
    with all have "holds e (getParameters ?F) r (NotC (LabelsOverlap ''excludeLabels''))"
      by blast
    with final_lookup_exclude [OF lf False, of n qb] show ?thesis by simp
  qed
  from inc exc show ?thesis by (simp add: spec_label_policy_def)
qed


lemma label_only_build:
  "buildWhereClause n qb
     (no_args\<lparr>labelFilters := Some lfs, includePending := Some True, includeDeleted := Some True\<rparr>) =
   where_labelFilters
     (no_args\<lparr>labelFilters := Some lfs, includePending := Some True, includeDeleted := Some True\<rparr>) qb"
  by (simp add: buildWhereClause_def where_query_def where_typeFilter_def where_inFilter_def
      where_readFilter_def where_hasFilters_def where_dateFilters_def where_termFilters_def
      where_matchFilters_def where_ids_def where_includePending_def where_includeDeleted_def
      where_noFilters_def where_recommendedBy_def no_args_def)

lemma label_policy_complete:
  assumes lf: "labelFilters args = Some lfs" and p: "spec_label_policy lfs r"
  shows "matches e (where_labelFilters args createQueryBuilder) r"
proof -
  let ?incs = "filter (\<lambda>f. lf_type f = INCLUDE) lfs"
  let ?excs = "filter (\<lambda>f. lf_type f = EXCLUDE) lfs"
  let ?L = "where_labelFilters args createQueryBuilder"
  have e0: "\<forall>(t, c) \<in> set (tl (wheres createQueryBuilder)). t \<noteq> OrW"
    by (simp add: createQueryBuilder_def)
  have no_or: "\<forall>(t, c) \<in> set (tl (wheres ?L)). t \<noteq> OrW"
    by (rule and_extension_tl [OF ext_labelFilters [OF and_extension_refl] e0])
  have w: "wheres ?L =
     map (\<lambda>i. (AndW, LabelsOverlap (include_param i))) [0..<length ?incs] @
     (if ?excs = [] then [] else [(AndW, NotC (LabelsOverlap ''excludeLabels''))])"
    by (simp add: labels_wheres [OF lf] createQueryBuilder_def)
  have "holds e (getParameters ?L) r c" if tc: "(t, c) \<in> set (wheres ?L)" for t c
  proof -
    from tc w consider j where "j < length ?incs" "c = LabelsOverlap (include_param j)"
      | "?excs \<noteq> []" "c = NotC (LabelsOverlap ''excludeLabels'')"
      by (auto split: if_splits)
    then show ?thesis
    proof cases
      case 1
      from 1(1) have "?incs ! j \<in> set ?incs" by (rule nth_mem)
      with p have "overlap (folded_labels r) (lf_labels (?incs ! j))"
        unfolding spec_label_policy_def by blast
      with labels_lookup_include [OF lf 1(1), of createQueryBuilder] 1(2) show ?thesis
        by simp
    next
      case 2
      from p have "\<not> overlap (folded_labels r) (concat (map lf_labels ?excs))"
        by (simp add: spec_label_policy_def)
      with labels_lookup_exclude [OF lf 2(1), of createQueryBuilder] 2(2) show ?thesis
        by simp
    qed
  qed
  then show ?thesis
    by (auto simp: matches_all [OF no_or])
qed

text \<open>
  Claim C5. For every label-filter list, \<open>buildWhereClause\<close> splits it into its INCLUDE
  and its EXCLUDE entries. The \<open>n\<close> INCLUDE entries add \<open>n\<close> conjunctive overlap clauses,
  entry \<open>i\<close> with its own parameter \<open>includeLabels_i\<close> bound to that entry's label set,
  which no other filter rebinds; the EXCLUDE entries add one NOT-overlap clause whose
  parameter is the concatenation of all their labels. So every row the query matches,
  whatever the other filters are, satisfies the policy of the specification (each
  INCLUDE set overlaps the item's case-folded label array, the union of the EXCLUDE
  sets does not), and with the label filters as the only filter the query matches
  exactly the rows that satisfy it.
\<close>

theorem label_filters_policy:
  "(labelFilters args = Some lfs \<longrightarrow>
      wheres (where_labelFilters args qb) =
        wheres qb @
        map (\<lambda>i. (AndW, LabelsOverlap (include_param i)))
          [0..<length (filter (\<lambda>f. lf_type f = INCLUDE) lfs)] @
        (if filter (\<lambda>f. lf_type f = EXCLUDE) lfs = [] then []
         else [(AndW, NotC (LabelsOverlap ''excludeLabels''))])) \<and>
   (labelFilters args = Some lfs \<and> j < length (filter (\<lambda>f. lf_type f = INCLUDE) lfs) \<longrightarrow>
      getParameters (buildWhereClause n qb args) (include_param j) =
        Some (Array (lf_labels (filter (\<lambda>f. lf_type f = INCLUDE) lfs ! j)))) \<and>
   (labelFilters args = Some lfs \<and> filter (\<lambda>f. lf_type f = EXCLUDE) lfs \<noteq> [] \<longrightarrow>
      getParameters (buildWhereClause n qb args) ''excludeLabels'' =
        Some (Array (concat (map lf_labels (filter (\<lambda>f. lf_type f = EXCLUDE) lfs))))) \<and>
   (labelFilters args = Some lfs \<and> (\<forall>(t, c) \<in> set (tl (wheres qb)). t \<noteq> OrW) \<and>
      matches e (buildWhereClause n qb args) r \<longrightarrow> spec_label_policy lfs r) \<and>
   (matches e
      (buildWhereClause n createQueryBuilder
         (no_args\<lparr>labelFilters := Some lfs, includePending := Some True,
            includeDeleted := Some True\<rparr>)) r
    = spec_label_policy lfs r)"
proof (intro conjI impI)
  assume "labelFilters args = Some lfs"
  then show "wheres (where_labelFilters args qb) =
        wheres qb @
        map (\<lambda>i. (AndW, LabelsOverlap (include_param i)))
          [0..<length (filter (\<lambda>f. lf_type f = INCLUDE) lfs)] @
        (if filter (\<lambda>f. lf_type f = EXCLUDE) lfs = [] then []
         else [(AndW, NotC (LabelsOverlap ''excludeLabels''))])"
    by (rule labels_wheres)
next
  assume "labelFilters args = Some lfs \<and> j < length (filter (\<lambda>f. lf_type f = INCLUDE) lfs)"
  then show "getParameters (buildWhereClause n qb args) (include_param j) =
        Some (Array (lf_labels (filter (\<lambda>f. lf_type f = INCLUDE) lfs ! j)))"
    by (simp add: final_lookup_include)
next
  assume "labelFilters args = Some lfs \<and> filter (\<lambda>f. lf_type f = EXCLUDE) lfs \<noteq> []"
  then show "getParameters (buildWhereClause n qb args) ''excludeLabels'' =
        Some (Array (concat (map lf_labels (filter (\<lambda>f. lf_type f = EXCLUDE) lfs))))"
    by (simp add: final_lookup_exclude)
next
  assume "labelFilters args = Some lfs \<and> (\<forall>(t, c) \<in> set (tl (wheres qb)). t \<noteq> OrW) \<and>
      matches e (buildWhereClause n qb args) r"
  then show "spec_label_policy lfs r"
    using label_policy_sound by blast
next
  let ?a = "no_args\<lparr>labelFilters := Some lfs, includePending := Some True,
            includeDeleted := Some True\<rparr>"
  have lf: "labelFilters ?a = Some lfs" by simp
  have e0: "\<forall>(t, c) \<in> set (tl (wheres createQueryBuilder)). t \<noteq> OrW"
    by (simp add: createQueryBuilder_def)
  show "matches e (buildWhereClause n createQueryBuilder ?a) r = spec_label_policy lfs r"
  proof
    assume "matches e (buildWhereClause n createQueryBuilder ?a) r"
    with lf e0 show "spec_label_policy lfs r" by (rule label_policy_sound)
  next
    assume "spec_label_policy lfs r"
    with lf have "matches e (where_labelFilters ?a createQueryBuilder) r"
      by (rule label_policy_complete)
    then show "matches e (buildWhereClause n createQueryBuilder ?a) r"
      by (simp only: label_only_build)
  qed
qed

lemma sample_policy:
  "spec_label_policy sample_label_filters (labelled ''a'' ''u1'' [''News''] [''Daily''])"
  "\<not> spec_label_policy sample_label_filters (labelled ''b'' ''u1'' [''News'', ''Daily'', ''Promo''] [])"
  "\<not> spec_label_policy sample_label_filters (labelled ''c'' ''u1'' [''News''] [])"
  by code_simp+

lemma sample_include_params:
  "include_param 0 = ''includeLabels_0''"
  "include_param (Suc 0) = ''includeLabels_1''"
  "include_param 1 = ''includeLabels_1''"
  by code_simp+

theorem label_filters_policy_witness:
  "wheres (where_labelFilters (no_args\<lparr>labelFilters := Some sample_label_filters\<rparr>)
       createQueryBuilder) =
     [(AndW, LabelsOverlap ''includeLabels_0''), (AndW, LabelsOverlap ''includeLabels_1''),
      (AndW, NotC (LabelsOverlap ''excludeLabels''))] \<and>
   getParameters
     (buildWhereClause 5000 createQueryBuilder (no_args\<lparr>labelFilters := Some sample_label_filters\<rparr>))
     ''includeLabels_1'' = Some (Array [''daily'']) \<and>
   getParameters
     (buildWhereClause 5000 createQueryBuilder (no_args\<lparr>labelFilters := Some sample_label_filters\<rparr>))
     ''excludeLabels'' = Some (Array [''spam'', ''ads'', ''promo'']) \<and>
   matches (sample_env 5000)
     (buildWhereClause 5000 createQueryBuilder
        (no_args\<lparr>labelFilters := Some sample_label_filters, includePending := Some True,
           includeDeleted := Some True\<rparr>))
     (labelled ''a'' ''u1'' [''News''] [''Daily'']) \<and>
   \<not> matches (sample_env 5000)
     (buildWhereClause 5000 createQueryBuilder
        (no_args\<lparr>labelFilters := Some sample_label_filters, includePending := Some True,
           includeDeleted := Some True\<rparr>))
     (labelled ''b'' ''u1'' [''News'', ''Daily'', ''Promo''] [])"
  using
    label_filters_policy [where args = "no_args\<lparr>labelFilters := Some sample_label_filters\<rparr>"
          and lfs = sample_label_filters and qb = createQueryBuilder and n = 5000 and j = 1
          and e = "sample_env 5000" and r = "labelled ''a'' ''u1'' [''News''] [''Daily'']"]
    label_filters_policy [where lfs = sample_label_filters and n = 5000
          and e = "sample_env 5000" and r = "labelled ''b'' ''u1'' [''News'', ''Daily'', ''Promo''] []",
        THEN conjunct2, THEN conjunct2, THEN conjunct2, THEN conjunct2]
    sample_policy
  by (simp add: sample_label_filters_def createQueryBuilder_def sample_include_params)

end
